theory Spec2Isabelle
  imports Main
begin

section \<open>Overview\<close>

text \<open>
  A recipe server: a dish name comes in, a hosted language model is asked for a recipe,
  the request is stored and the recipe is returned; users log in with a name and a phone
  number and receive a signed token. The sources hold three revisions of the server.

  \<^item> The two-stage revision (\<^verbatim>\<open>src/unnamed/part_000\<close>): a state graph of two nodes,
    \<open>categorizationNode\<close> and \<open>recipeNode\<close>, over \<open>graphState\<close>; routes \<open>get_recipe\<close>
    and \<open>history_recent\<close>; no users and no tokens.
  \<^item> The guarded revision (\<^verbatim>\<open>src/server.js\<close>, second half): one node,
    \<open>recipeNode_guarded\<close>, over \<open>graphState_guarded\<close>; the middleware
    \<open>authenticateToken\<close>; routes \<open>login\<close>, \<open>history\<close> and \<open>get_recipe_guarded\<close>.
  \<^item> The first revision of \<^verbatim>\<open>src/server.js\<close> (first half): the same middleware and
    login with other messages and another token lifetime, \<open>authenticateToken_r1\<close> and
    \<open>login_r1\<close>; its history route is that of the guarded revision.

  A route takes its collaborators, the parts of the request it reads and the server's
  state, and returns the response and the new state.
\<close>

section \<open>JavaScript values\<close>

text \<open>
  The server is written in JavaScript. The values that flow through the request bodies,
  the headers and the pipeline state are strings, \<^verbatim>\<open>null\<close> and \<^verbatim>\<open>undefined\<close> (a missing
  property). Other JSON types (numbers, booleans, arrays, objects) are outside the model.
  A string is a list of characters; the characters of the model are bytes, so a
  string is held as its UTF-8 encoding and a non-ASCII character is several bytes.
\<close>

datatype jsval = JUndefined | JNull | JStr string

text \<open>JavaScript truthiness: \<^verbatim>\<open>undefined\<close>, \<^verbatim>\<open>null\<close> and the empty string are falsy.\<close>

fun truthy :: "jsval \<Rightarrow> bool" where
  "truthy JUndefined = False"
| "truthy JNull = False"
| "truthy (JStr s) = (s \<noteq> [])"

text \<open>String conversion inside a template literal, \<^verbatim>\<open>`${v}`\<close>.\<close>

fun to_string :: "jsval \<Rightarrow> string" where
  "to_string JUndefined = ''undefined''"
| "to_string JNull = ''null''"
| "to_string (JStr s) = s"

text \<open>
  \<^verbatim>\<open>String.prototype.trim\<close> removes white space and line terminators from both ends:
  TAB, LF, VT, FF, CR, SPACE, U+00A0, U+1680, U+2000 to U+200A, U+2028, U+2029, U+202F,
  U+205F, U+3000 and U+FEFF. \<open>white_space\<close> lists them as the byte sequences of their
  UTF-8 encoding. \<open>strip_leading\<close> removes such sequences from the front of a string
  for as long as one is there; \<open>trim\<close> does so at the front and, on the reversed
  string with the reversed sequences, at the end.
\<close>

definition white_space :: "string list" where
  "white_space =
     [[CHR 0x09], [CHR 0x0A], [CHR 0x0B], [CHR 0x0C], [CHR 0x0D], [CHR 0x20],
      [CHR 0xC2, CHR 0xA0],
      [CHR 0xE1, CHR 0x9A, CHR 0x80],
      [CHR 0xE2, CHR 0x80, CHR 0x80], [CHR 0xE2, CHR 0x80, CHR 0x81],
      [CHR 0xE2, CHR 0x80, CHR 0x82], [CHR 0xE2, CHR 0x80, CHR 0x83],
      [CHR 0xE2, CHR 0x80, CHR 0x84], [CHR 0xE2, CHR 0x80, CHR 0x85],
      [CHR 0xE2, CHR 0x80, CHR 0x86], [CHR 0xE2, CHR 0x80, CHR 0x87],
      [CHR 0xE2, CHR 0x80, CHR 0x88], [CHR 0xE2, CHR 0x80, CHR 0x89],
      [CHR 0xE2, CHR 0x80, CHR 0x8A],
      [CHR 0xE2, CHR 0x80, CHR 0xA8], [CHR 0xE2, CHR 0x80, CHR 0xA9],
      [CHR 0xE2, CHR 0x80, CHR 0xAF],
      [CHR 0xE2, CHR 0x81, CHR 0x9F],
      [CHR 0xE3, CHR 0x80, CHR 0x80],
      [CHR 0xEF, CHR 0xBB, CHR 0xBF]]"

definition leading :: "string list \<Rightarrow> string \<Rightarrow> string option" where
  "leading seqs s = find (\<lambda>q. q \<noteq> [] \<and> take (length q) s = q) seqs"

function strip_leading :: "string list \<Rightarrow> string \<Rightarrow> string" where
  "strip_leading seqs s =
     (case leading seqs s of
        None \<Rightarrow> s
      | Some q \<Rightarrow> strip_leading seqs (drop (length q) s))"
  by pat_completeness auto
termination
proof (relation "measure (\<lambda>(seqs, s). length s)")
  show "wf (measure (\<lambda>(seqs, s). length s))" by simp
next
  fix seqs :: "string list" and s q :: string
  assume "leading seqs s = Some q"
  then have q: "q \<noteq> []" and t: "take (length q) s = q"
    by (auto simp: leading_def find_Some_iff)
  from q t have "s \<noteq> []" by auto
  with q show "((seqs, drop (length q) s), (seqs, s)) \<in> measure (\<lambda>(seqs, s). length s)"
    by simp
qed

definition trim :: "string \<Rightarrow> string" where
  "trim s = rev (strip_leading (map rev white_space) (rev (strip_leading white_space s)))"

text \<open>A JavaScript object with string keys: a missing property reads as \<^verbatim>\<open>undefined\<close>.\<close>

type_synonym obj = "string \<Rightarrow> jsval"

definition empty_obj :: obj where
  "empty_obj = (\<lambda>k. JUndefined)"

section \<open>The collaborators of a request and the server's state\<close>

text \<open>
  The hosted language model is a collaborator outside the program: \<open>llm_reply\<close> gives,
  for a prompt, the text of the completion, or \<open>None\<close> when the call throws. Every call
  appends its prompt to \<open>llm_calls\<close>, so that the number and order of the calls of a
  request can be read off.

  The token library is a collaborator too. A token is a string; \<open>jwt_decode\<close> reads it
  back as the payload it carries, the secret it was signed with and its expiry (seconds
  since the epoch), or \<open>None\<close> when the string is not a token. \<open>db_ok\<close> says whether
  the document store answers during this request (a failing store operation throws),
  \<open>now\<close> is \<^verbatim>\<open>Date.now()\<close> in milliseconds, and \<open>env_JWT_SECRET\<close> is
  \<^verbatim>\<open>process.env.JWT_SECRET\<close>.
\<close>

record claims =
  claim_id :: nat
  claim_phone :: string
  claim_name :: string

record jwt =
  payload :: claims
  signed_with :: string
  expires :: nat

record env =
  llm_reply :: "string \<Rightarrow> string option"
  jwt_encode :: "jwt \<Rightarrow> string"
  jwt_decode :: "string \<Rightarrow> jwt option"
  db_ok :: bool
  now :: nat
  env_JWT_SECRET :: jsval

text \<open>The two collections of the store (\<^verbatim>\<open>UserSchema\<close>, \<^verbatim>\<open>RequestSchema\<close>).\<close>

record user =
  user_id :: nat
  name :: string
  phone :: string
  user_createdAt :: nat

record recipe_request =
  request_id :: nat
  userPhone :: jsval
  dishName :: jsval
  category :: jsval
  recipe :: jsval
  createdAt :: nat

record world =
  users :: "user list"
  requests :: "recipe_request list"
  next_id :: nat
  llm_calls :: "string list"

text \<open>\<^verbatim>\<open>await llm.invoke([new HumanMessage(prompt)])\<close>, then \<^verbatim>\<open>response.content\<close>.\<close>

definition llm_invoke :: "env \<Rightarrow> string \<Rightarrow> world \<Rightarrow> string option \<times> world" where
  "llm_invoke e prompt w = (llm_reply e prompt, w\<lparr>llm_calls := llm_calls w @ [prompt]\<rparr>)"

section \<open>The state graph\<close>

text \<open>
  \<^verbatim>\<open>graphState\<close> declares one channel per field of the pipeline state, each with a
  reducer \<^verbatim>\<open>value: (x, y) => y ? y : x\<close> and a default \<^verbatim>\<open>default: () => null\<close>.
\<close>

record channel =
  "value" :: "jsval \<Rightarrow> jsval \<Rightarrow> jsval"
  default :: jsval

definition last_truthy :: channel where
  "last_truthy = \<lparr>value = (\<lambda>x y. if truthy y then y else x), default = JNull\<rparr>"

text \<open>The two-stage revision (categorize, then generate).\<close>

definition graphState :: "(string \<times> channel) list" where
  "graphState =
     [(''dish_name'', last_truthy), (''category'', last_truthy), (''recipe'', last_truthy)]"

text \<open>The single-stage guarded revision.\<close>

definition graphState_guarded :: "(string \<times> channel) list" where
  "graphState_guarded = [(''dish_name'', last_truthy), (''recipe'', last_truthy)]"

text \<open>
  The graph library (\<^verbatim>\<open>StateGraph\<close>) is not part of the repository; the model follows its
  documented behaviour. A state holds one value per channel. Writing a partial update
  passes, for every channel the update has a key for, the current value and the written
  value to the channel's reducer; a channel without a key in the update is not written.
  \<^verbatim>\<open>invoke\<close> starts from the defaults, writes the input, runs the nodes in the order
  of the edges (here a chain), writes what each node returns, and returns the final
  state. A node that throws makes \<^verbatim>\<open>invoke\<close> throw: the remaining nodes do not run.
\<close>

definition initial_state :: "(string \<times> channel) list \<Rightarrow> obj" where
  "initial_state channels =
     (\<lambda>k. case map_of channels k of None \<Rightarrow> JUndefined | Some ch \<Rightarrow> default ch)"

definition apply_update :: "(string \<times> channel) list \<Rightarrow> obj \<Rightarrow> obj \<Rightarrow> obj" where
  "apply_update channels st upd =
     (\<lambda>k. case map_of channels k of
            None \<Rightarrow> st k
          | Some ch \<Rightarrow> (if upd k = JUndefined then st k else value ch (st k) (upd k)))"

type_synonym node = "env \<Rightarrow> obj \<Rightarrow> world \<Rightarrow> obj option \<times> world"

fun run_nodes :: "(string \<times> channel) list \<Rightarrow> node list \<Rightarrow> env \<Rightarrow> obj \<Rightarrow> world
    \<Rightarrow> obj option \<times> world" where
  "run_nodes channels [] e st w = (Some st, w)"
| "run_nodes channels (n # ns) e st w =
     (case n e st w of
        (None, w') \<Rightarrow> (None, w')
      | (Some upd, w') \<Rightarrow> run_nodes channels ns e (apply_update channels st upd) w')"

definition invoke :: "(string \<times> channel) list \<Rightarrow> node list \<Rightarrow> env \<Rightarrow> obj \<Rightarrow> world
    \<Rightarrow> obj option \<times> world" where
  "invoke channels nodes e inputs w =
     run_nodes channels nodes e (apply_update channels (initial_state channels) inputs) w"

section \<open>The pipeline stages\<close>

subsection \<open>Two-stage revision: categorize, then generate\<close>

definition categorization_prompt :: "string \<Rightarrow> string" where
  "categorization_prompt dish =
     ''Categorize the dish '' @ [CHR 0x27] @ dish @ [CHR 0x27] @
     '' into exactly one of these categories: Veg, Non-Veg, Fast Food, Drinks. Return ONLY the category name.''"

definition categorizationNode :: node where
  "categorizationNode e state w =
     (let dish = state ''dish_name'';
          prompt = categorization_prompt (to_string dish)
      in case llm_invoke e prompt w of
           (None, w') \<Rightarrow> (None, w')
         | (Some content, w') \<Rightarrow> (Some (empty_obj(''category'' := JStr (trim content))), w'))"

definition recipe_prompt :: "string \<Rightarrow> string \<Rightarrow> string" where
  \<open>recipe_prompt dish_name category' =
     ''The user wants to make '' @ [CHR 0x27] @ dish_name @ [CHR 0x27] @ '' ('' @ category' @ '').\<newline>'' @
     ''  \<newline>'' @
     ''  Please follow these strict formatting rules:\<newline>'' @
     ''  1. **Language**: Use VERY SIMPLE English. Short sentences. No hard words.\<newline>'' @
     ''  2. **Ingredients**: Provide them in a Markdown Table with two columns: "Ingredient" and "Quantity".\<newline>'' @
     ''  3. **Procedure**: Provide the steps as a numbered list. \<newline>'' @
     ''     - Bold the main action verbs (e.g., **Mix**, **Boil**, **Cut**).\<newline>'' @
     ''     - Keep steps short and easy to read.\<newline>'' @
     ''\<newline>'' @
     ''  Do not include any intro or outro text. Just the table and the steps.''\<close>

definition recipeNode :: node where
  "recipeNode e state w =
     (let dish_name = state ''dish_name'';
          category' = state ''category'';
          prompt = recipe_prompt (to_string dish_name) (to_string category')
      in case llm_invoke e prompt w of
           (None, w') \<Rightarrow> (None, w')
         | (Some content, w') \<Rightarrow> (Some (empty_obj(''recipe'' := JStr content)), w'))"

text \<open>
  What the two stages leave in the state for a reply of the model, once the reducer has
  merged their updates into a state that holds \<^verbatim>\<open>null\<close> there: the trimmed reply as
  category and the reply as recipe, unless that string is empty.
\<close>

definition cat_of :: "string \<Rightarrow> jsval" where
  "cat_of raw = (if trim raw = [] then JNull else JStr (trim raw))"

definition recipe_of :: "string \<Rightarrow> jsval" where
  "recipe_of content = (if content = [] then JNull else JStr content)"

text \<open>\<^verbatim>\<open>START -> categorize -> generate_recipe -> END\<close>\<close>

definition workflow :: "node list" where
  "workflow = [categorizationNode, recipeNode]"

definition appGraph :: "env \<Rightarrow> obj \<Rightarrow> world \<Rightarrow> obj option \<times> world" where
  "appGraph = invoke graphState workflow"

subsection \<open>Single-stage guarded revision\<close>

text \<open>The refusal message that the prompt dictates; its first four bytes are U+1F6AB.\<close>

definition refusal_message :: string where
  \<open>refusal_message =
     [CHR 0xF0, CHR 0x9F, CHR 0x9A, CHR 0xAB] @
     '' **Security Alert:** I can only help with cooking and recipes.''\<close>

definition guarded_prompt :: "string \<Rightarrow> string" where
  \<open>guarded_prompt dish_name =
     ''\<newline>'' @
     ''  You are a specialized Gourmet Chef AI.\<newline>'' @
     ''\<newline>'' @
     ''  SYSTEM INSTRUCTIONS:\<newline>'' @
     ''  1. Your ONLY purpose is to provide cooking recipes.\<newline>'' @
     ''  2. You must analyze the content inside the "USER_REQUEST" delimiter below.\<newline>'' @
     ''  3. **SAFETY CHECK:** If the content inside the delimiter is NOT a food item (e.g., it asks about code, politics, math, or hacking), you must REFUSE.\<newline>'' @
     ''     - Refusal Message: "'' @ refusal_message @ ''"\<newline>'' @
     ''  4. If valid, format the output with:\<newline>'' @
     ''     - A Markdown Table for ingredients.\<newline>'' @
     ''     - Numbered list for steps.\<newline>'' @
     ''  5. Do NOT include any intro/outro conversation.\<newline>'' @
     ''\<newline>'' @
     ''  USER_REQUEST:\<newline>'' @
     ''  """\<newline>'' @
     ''  '' @ dish_name @ ''\<newline>'' @
     ''  """\<newline>'' @
     ''  \<newline>'' @
     ''  Execute the system instructions on the USER_REQUEST above.\<newline>'' @
     ''  ''\<close>

definition recipeNode_guarded :: node where
  "recipeNode_guarded e state w =
     (let dish_name = state ''dish_name'';
          prompt = guarded_prompt (to_string dish_name)
      in case llm_invoke e prompt w of
           (None, w') \<Rightarrow> (None, w')
         | (Some content, w') \<Rightarrow> (Some (empty_obj(''recipe'' := JStr content)), w'))"

text \<open>\<^verbatim>\<open>START -> generate_recipe -> END\<close>\<close>

definition workflow_guarded :: "node list" where
  "workflow_guarded = [recipeNode_guarded]"

definition appGraph_guarded :: "env \<Rightarrow> obj \<Rightarrow> world \<Rightarrow> obj option \<times> world" where
  "appGraph_guarded = invoke graphState_guarded workflow_guarded"

section \<open>Tokens\<close>

definition JWT_SECRET :: "env \<Rightarrow> string" where
  "JWT_SECRET e =
     (if truthy (env_JWT_SECRET e) then to_string (env_JWT_SECRET e)
      else ''CHANGE_THIS_TO_A_SUPER_COMPLEX_KEY_IN_ENV'')"

text \<open>
  The token library (\<^verbatim>\<open>jsonwebtoken\<close>) is not part of the repository; the model follows
  its documented behaviour. \<^verbatim>\<open>jwt.sign(payload, secret, { expiresIn })\<close> issues a token
  that expires \<open>ttl\<close> seconds after the current second. \<^verbatim>\<open>jwt.verify(token, secret, cb)\<close>
  reports an error (\<open>None\<close>) for a string that is not a token, for a token signed with
  another secret, and for a token whose expiry has been reached; otherwise it yields the
  payload.
\<close>

definition jwt_sign :: "env \<Rightarrow> claims \<Rightarrow> string \<Rightarrow> nat \<Rightarrow> string" where
  "jwt_sign e p secret ttl =
     jwt_encode e \<lparr>payload = p, signed_with = secret, expires = now e div 1000 + ttl\<rparr>"

definition jwt_verify :: "env \<Rightarrow> string \<Rightarrow> string \<Rightarrow> claims option" where
  "jwt_verify e token secret =
     (case jwt_decode e token of
        None \<Rightarrow> None
      | Some t \<Rightarrow>
          if signed_with t \<noteq> secret then None
          else if expires t \<le> now e div 1000 then None
          else Some (payload t))"

section \<open>Responses\<close>

text \<open>
  \<open>Error c m\<close> is \<^verbatim>\<open>res.status(c).json({ error: m })\<close>; the other responses are sent with
  \<^verbatim>\<open>res.json\<close>, status 200: \<open>LoginOk token name phone\<close>, \<open>HistoryOk records\<close>,
  \<open>RecipeOk _id dishName recipe createdAt\<close> (guarded revision) and
  \<open>CategorizedOk category recipe\<close> (two-stage revision).
\<close>

datatype response =
    Error nat string
  | LoginOk string string string
  | HistoryOk "recipe_request list"
  | RecipeOk nat jsval jsval nat
  | CategorizedOk jsval jsval

fun status :: "response \<Rightarrow> nat" where
  "status (Error c m) = c"
| "status (LoginOk t n p) = 200"
| "status (HistoryOk rs) = 200"
| "status (RecipeOk i d r c) = 200"
| "status (CategorizedOk c r) = 200"

section \<open>Authentication middleware\<close>

text \<open>\<^verbatim>\<open>s.split(' ')\<close> and \<^verbatim>\<open>xs[i]\<close> on the array it returns.\<close>

fun split_on :: "char \<Rightarrow> string \<Rightarrow> string list" where
  "split_on c [] = [[]]"
| "split_on c (x # xs) =
     (if x = c then [] # split_on c xs
      else (case split_on c xs of
              [] \<Rightarrow> [[x]]
            | y # ys \<Rightarrow> (x # y) # ys))"

definition element :: "string list \<Rightarrow> nat \<Rightarrow> jsval" where
  "element xs i = (if i < length xs then JStr (xs ! i) else JUndefined)"

text \<open>\<^verbatim>\<open>authHeader && authHeader.split(' ')[1]\<close>\<close>

definition header_token :: "jsval \<Rightarrow> jsval" where
  "header_token authHeader =
     (if truthy authHeader then element (split_on CHR '' '' (to_string authHeader)) 1
      else authHeader)"

text \<open>
  The middleware either answers itself (\<open>Inl\<close>) or sets \<^verbatim>\<open>req.user\<close> and calls
  \<^verbatim>\<open>next()\<close> (\<open>Inr\<close>). It takes no store and returns none.
\<close>

definition authenticateToken :: "env \<Rightarrow> jsval \<Rightarrow> response + claims" where
  "authenticateToken e authHeader =
     (let token = header_token authHeader
      in if \<not> truthy token then Inl (Error 401 ''Access Denied: No Token Provided'')
         else (case jwt_verify e (to_string token) (JWT_SECRET e) of
                 None \<Rightarrow> Inl (Error 403 ''Access Denied: Invalid Token'')
               | Some user \<Rightarrow> Inr user))"

text \<open>The same middleware in the first revision of \<^verbatim>\<open>server.js\<close>.\<close>

definition authenticateToken_r1 :: "env \<Rightarrow> jsval \<Rightarrow> response + claims" where
  "authenticateToken_r1 e authHeader =
     (let token = header_token authHeader
      in if \<not> truthy token then Inl (Error 401 ''Access Denied'')
         else (case jwt_verify e (to_string token) (JWT_SECRET e) of
                 None \<Rightarrow> Inl (Error 403 ''Invalid Token'')
               | Some user \<Rightarrow> Inr user))"

section \<open>Routes\<close>

subsection \<open>\<^verbatim>\<open>POST /api/login\<close>\<close>

text \<open>\<^verbatim>\<open>/^\d{10}$/.test(phone)\<close> and \<^verbatim>\<open>typeof v === 'string'\<close>.\<close>

definition is_digit :: "char \<Rightarrow> bool" where
  "is_digit c = (c \<in> set ''0123456789'')"

definition isValidPhone :: "string \<Rightarrow> bool" where
  "isValidPhone p = (length p = 10 \<and> list_all is_digit p)"

fun is_string :: "jsval \<Rightarrow> bool" where
  "is_string (JStr s) = True"
| "is_string v = False"

text \<open>
  \<^verbatim>\<open>UserModel.findOne({ phone })\<close> is the first stored user with that phone;
  \<^verbatim>\<open>new UserModel({ name, phone })\<close> takes a fresh \<^verbatim>\<open>_id\<close> and the current time, and
  \<^verbatim>\<open>save()\<close> adds the document to the collection. The token lives two hours.
\<close>

definition login :: "env \<Rightarrow> jsval \<Rightarrow> jsval \<Rightarrow> world \<Rightarrow> response \<times> world" where
  "login e name' phone' w =
     (if \<not> truthy name' \<or> \<not> truthy phone' \<or> \<not> is_string name' \<or> \<not> is_string phone'
      then (Error 400 ''Invalid input'', w)
      else if \<not> isValidPhone (to_string phone')
      then (Error 400 ''Phone number must be exactly 10 digits'', w)
      else if \<not> db_ok e then (Error 500 ''Login failed'', w)
      else
        (let (user, w') =
               (case find (\<lambda>u. phone u = to_string phone') (users w) of
                  Some u \<Rightarrow> (u, w)
                | None \<Rightarrow>
                    (let u = \<lparr>user_id = next_id w, name = to_string name',
                              phone = to_string phone', user_createdAt = now e\<rparr>
                     in (u, w\<lparr>users := users w @ [u], next_id := Suc (next_id w)\<rparr>)));
             token = jwt_sign e
                       \<lparr>claim_id = user_id user, claim_phone = phone user, claim_name = name user\<rparr>
                       (JWT_SECRET e) 7200
         in (LoginOk token (name user) (phone user), w')))"

text \<open>
  The first revision of \<^verbatim>\<open>server.js\<close>: no \<^verbatim>\<open>typeof\<close> test, and the token lives
  twenty-four hours.
\<close>

definition login_r1 :: "env \<Rightarrow> jsval \<Rightarrow> jsval \<Rightarrow> world \<Rightarrow> response \<times> world" where
  "login_r1 e name' phone' w =
     (if \<not> truthy name' \<or> \<not> truthy phone' then (Error 400 ''Invalid input'', w)
      else if \<not> isValidPhone (to_string phone')
      then (Error 400 ''Phone number must be exactly 10 digits'', w)
      else if \<not> db_ok e then (Error 500 ''Login failed'', w)
      else
        (let (user, w') =
               (case find (\<lambda>u. phone u = to_string phone') (users w) of
                  Some u \<Rightarrow> (u, w)
                | None \<Rightarrow>
                    (let u = \<lparr>user_id = next_id w, name = to_string name',
                              phone = to_string phone', user_createdAt = now e\<rparr>
                     in (u, w\<lparr>users := users w @ [u], next_id := Suc (next_id w)\<rparr>)));
             token = jwt_sign e
                       \<lparr>claim_id = user_id user, claim_phone = phone user, claim_name = name user\<rparr>
                       (JWT_SECRET e) 86400
         in (LoginOk token (name user) (phone user), w')))"

subsection \<open>\<^verbatim>\<open>GET /api/history\<close>\<close>

text \<open>\<^verbatim>\<open>.sort({ createdAt: -1 })\<close>: newest first.\<close>

definition sort_createdAt_desc :: "recipe_request list \<Rightarrow> recipe_request list" where
  "sort_createdAt_desc rs = sort_key (\<lambda>r. - int (createdAt r)) rs"

text \<open>\<^verbatim>\<open>RequestModel.find({ userPhone: req.user.phone }).sort({ createdAt: -1 })\<close>\<close>

definition history :: "env \<Rightarrow> jsval \<Rightarrow> world \<Rightarrow> response \<times> world" where
  "history e authHeader w =
     (case authenticateToken e authHeader of
        Inl r \<Rightarrow> (r, w)
      | Inr user \<Rightarrow>
          if \<not> db_ok e then (Error 500 ''Failed to fetch history'', w)
          else (HistoryOk
                  (sort_createdAt_desc
                     (filter (\<lambda>r. userPhone r = JStr (claim_phone user)) (requests w))), w))"

text \<open>
  The two-stage revision has no users: \<^verbatim>\<open>RequestModel.find().sort({ createdAt: -1 }).limit(10)\<close>.
\<close>

definition history_recent :: "env \<Rightarrow> world \<Rightarrow> response \<times> world" where
  "history_recent e w =
     (if \<not> db_ok e then (Error 500 ''Failed to fetch history'', w)
      else (HistoryOk (take 10 (sort_createdAt_desc (requests w))), w))"

subsection \<open>\<^verbatim>\<open>POST /api/get-recipe\<close>\<close>

text \<open>
  \<^verbatim>\<open>RequestSchema\<close> of \<^verbatim>\<open>server.js\<close> declares \<^verbatim>\<open>userPhone\<close> as required: \<^verbatim>\<open>save()\<close>
  validates the document first and throws, with nothing written, when \<^verbatim>\<open>userPhone\<close> is
  missing, \<^verbatim>\<open>null\<close> or the empty string. (\<^verbatim>\<open>UserSchema\<close> requires \<^verbatim>\<open>phone\<close> in the same
  way; login saves a user only after the phone has passed the ten-digit test. The schema
  of the two-stage revision requires nothing.)
\<close>

definition validate_request :: "recipe_request \<Rightarrow> bool" where
  "validate_request r = truthy (userPhone r)"

text \<open>
  The guarded revision: behind the middleware; the record's category is the fixed label
  and its dish name is the request's.
\<close>

definition get_recipe_guarded :: "env \<Rightarrow> jsval \<Rightarrow> jsval \<Rightarrow> world \<Rightarrow> response \<times> world" where
  "get_recipe_guarded e authHeader dish w =
     (case authenticateToken e authHeader of
        Inl r \<Rightarrow> (r, w)
      | Inr user \<Rightarrow>
          if \<not> truthy dish then (Error 400 ''Dish name required'', w)
          else
            (case appGraph_guarded e (empty_obj(''dish_name'' := dish)) w of
               (None, w') \<Rightarrow> (Error 500 ''Something went wrong.'', w')
             | (Some result, w') \<Rightarrow>
                 (let newRequest =
                        \<lparr>request_id = next_id w', userPhone = JStr (claim_phone user),
                         dishName = dish, category = JStr ''Gourmet'',
                         recipe = result ''recipe'', createdAt = now e\<rparr>
                  in if \<not> validate_request newRequest \<or> \<not> db_ok e
                     then (Error 500 ''Something went wrong.'', w')
                     else (RecipeOk (request_id newRequest) dish (result ''recipe'')
                             (createdAt newRequest),
                           w'\<lparr>requests := requests w' @ [newRequest],
                              next_id := Suc (next_id w')\<rparr>))))"

text \<open>The two-stage revision: no middleware; the record is filled from the final state.\<close>

definition get_recipe :: "env \<Rightarrow> jsval \<Rightarrow> world \<Rightarrow> response \<times> world" where
  "get_recipe e dish w =
     (if \<not> truthy dish then (Error 400 ''Dish name is required'', w)
      else
        (case appGraph e (empty_obj(''dish_name'' := dish)) w of
           (None, w') \<Rightarrow> (Error 500 ''Something went wrong. Check server console.'', w')
         | (Some result, w') \<Rightarrow>
             if \<not> db_ok e then (Error 500 ''Something went wrong. Check server console.'', w')
             else
               (let newRequest =
                      \<lparr>request_id = next_id w', userPhone = JUndefined,
                       dishName = result ''dish_name'', category = result ''category'',
                       recipe = result ''recipe'', createdAt = now e\<rparr>
                in (CategorizedOk (result ''category'') (result ''recipe''),
                    w'\<lparr>requests := requests w' @ [newRequest],
                       next_id := Suc (next_id w')\<rparr>))))"

section \<open>The specification's words\<close>

text \<open>
  The specification merges stage updates by "last non-null value wins" and rejects a
  "blank" dish. Both notions are written down here as the specification words them, to
  be compared with what the code computes: a value is null when it is \<^verbatim>\<open>null\<close> or
  missing, and a dish is blank when it is missing, \<^verbatim>\<open>null\<close>, empty, or made of white
  space only.
\<close>

definition last_non_null :: "jsval \<Rightarrow> jsval \<Rightarrow> jsval" where
  "last_non_null x y = (if y = JNull \<or> y = JUndefined then x else y)"

definition whitespace_only :: "string \<Rightarrow> bool" where
  "whitespace_only s = (s \<noteq> [] \<and> trim s = [])"

fun blank :: "jsval \<Rightarrow> bool" where
  "blank (JStr s) = (trim s = [])"
| "blank v = True"

section \<open>Stubbed collaborators for the examples\<close>

text \<open>
  A stubbed Model Client that answers the categorize prompt with a padded label and
  every other prompt with a fixed Markdown blob; one that answers every prompt with the
  same text; and one whose every call throws.
\<close>

definition example_blob :: string where
  \<open>example_blob =
     ''| Ingredient | Quantity |\<newline>|---|---|\<newline>| Paneer | 200 g |\<newline>\<newline>1. **Cut** the paneer.''\<close>

definition stub_two_stage :: "string \<Rightarrow> string option" where
  "stub_two_stage prompt =
     (if take 10 prompt = ''Categorize'' then Some '' Veg\<newline>'' else Some example_blob)"

definition stub_always :: "string \<Rightarrow> string \<Rightarrow> string option" where
  "stub_always reply prompt = Some reply"

definition stub_down :: "string \<Rightarrow> string option" where
  "stub_down prompt = None"

text \<open>
  A stubbed token library that knows three tokens for the same payload: a good one, one
  signed with another secret, and one that has expired. The clock stands at 5 seconds.
\<close>

definition example_claims :: claims where
  "example_claims = \<lparr>claim_id = 1, claim_phone = ''9876543210'', claim_name = ''Asha''\<rparr>"

definition stub_decode :: "string \<Rightarrow> jwt option" where
  "stub_decode token =
     (if token = ''good'' then
        Some \<lparr>payload = example_claims,
              signed_with = ''CHANGE_THIS_TO_A_SUPER_COMPLEX_KEY_IN_ENV'', expires = 7200\<rparr>
      else if token = ''forged'' then
        Some \<lparr>payload = example_claims, signed_with = ''another secret'', expires = 7200\<rparr>
      else if token = ''expired'' then
        Some \<lparr>payload = example_claims,
              signed_with = ''CHANGE_THIS_TO_A_SUPER_COMPLEX_KEY_IN_ENV'', expires = 5\<rparr>
      else None)"

definition stub_encode :: "jwt \<Rightarrow> string" where
  "stub_encode t = claim_name (payload t) @ ''/'' @ claim_phone (payload t)"

definition stub_env :: "(string \<Rightarrow> string option) \<Rightarrow> env" where
  "stub_env reply =
     \<lparr>llm_reply = reply, jwt_encode = stub_encode, jwt_decode = stub_decode,
      db_ok = True, now = 5000, env_JWT_SECRET = JUndefined\<rparr>"

definition empty_world :: world where
  "empty_world = \<lparr>users = [], requests = [], next_id = 0, llm_calls = []\<rparr>"

text \<open>A store that holds records of two owners, in the order in which they were written.\<close>

definition example_record :: "nat \<Rightarrow> string \<Rightarrow> nat \<Rightarrow> recipe_request" where
  "example_record i owner t =
     \<lparr>request_id = i, userPhone = JStr owner, dishName = JStr ''Dal'',
      category = JStr ''Gourmet'', recipe = JStr ''1. **Boil** the dal.'', createdAt = t\<rparr>"

definition two_owner_world :: world where
  "two_owner_world =
     \<lparr>users = [],
      requests = [example_record 0 ''9876543210'' 10, example_record 1 ''5550001111'' 20,
                  example_record 2 ''9876543210'' 30],
      next_id = 3, llm_calls = []\<rparr>"

section \<open>Merging stage updates\<close>

lemma map_of_graphState:
  "map_of graphState k =
     (if k = ''dish_name'' \<or> k = ''category'' \<or> k = ''recipe'' then Some last_truthy else None)"
  by (simp add: graphState_def)

lemma map_of_graphState_guarded:
  "map_of graphState_guarded k =
     (if k = ''dish_name'' \<or> k = ''recipe'' then Some last_truthy else None)"
  by (simp add: graphState_guarded_def)

lemma apply_update_last_truthy:
  "map_of channels k = Some last_truthy \<Longrightarrow>
   apply_update channels st upd k = (if truthy (upd k) then upd k else st k)"
  by (simp add: apply_update_def last_truthy_def)

lemma apply_update_undeclared:
  "map_of channels k = None \<Longrightarrow> apply_update channels st upd k = st k"
  by (simp add: apply_update_def)

lemma declared_channel:
  assumes "channels = graphState \<or> channels = graphState_guarded"
    and "k \<in> set (map fst channels)"
  shows "map_of channels k = Some last_truthy"
  using assms by (auto simp: graphState_def graphState_guarded_def)

text \<open>
  Claim C1, as the code has it. In both revisions of the pipeline state, every declared
  field is merged in the same way at every write: the written value replaces the prior
  one when it is truthy (a non-empty string), and the prior value is kept when the write
  is missing, \<^verbatim>\<open>null\<close> or the empty string.
\<close>

theorem merge_last_truthy_wins:
  assumes "channels = graphState \<or> channels = graphState_guarded"
    and "k \<in> set (map fst channels)"
  shows "apply_update channels st upd k = (if truthy (upd k) then upd k else st k)"
  using declared_channel [OF assms] by (rule apply_update_last_truthy)

theorem merge_last_truthy_wins_witness:
  "(graphState = graphState \<or> graphState = graphState_guarded) \<and>
   ''recipe'' \<in> set (map fst graphState) \<and>
   apply_update graphState (empty_obj(''recipe'' := JStr ''old''))
     (empty_obj(''recipe'' := JNull)) ''recipe'' = JStr ''old'' \<and>
   apply_update graphState (empty_obj(''recipe'' := JStr ''old''))
     (empty_obj(''recipe'' := JStr ''new'')) ''recipe'' = JStr ''new''"
proof -
  have h1: "graphState = graphState \<or> graphState = graphState_guarded" by simp
  have h2: "''recipe'' \<in> set (map fst graphState)" by (simp add: graphState_def)
  show ?thesis
    using h1 h2
      merge_last_truthy_wins [OF h1 h2, of "empty_obj(''recipe'' := JStr ''old'')"
        "empty_obj(''recipe'' := JNull)"]
      merge_last_truthy_wins [OF h1 h2, of "empty_obj(''recipe'' := JStr ''old'')"
        "empty_obj(''recipe'' := JStr ''new'')"]
    by simp
qed

text \<open>
  Claim C1 as stated fails: the empty string is a non-null value, yet writing it to a
  field that holds \<^verbatim>\<open>null\<close> leaves \<^verbatim>\<open>null\<close> there, where "last non-null value wins"
  would store the empty string.
\<close>

theorem merge_non_null_counterexample:
  "JStr [] \<noteq> JNull \<and> JStr [] \<noteq> JUndefined \<and>
   apply_update graphState (initial_state graphState)
     (empty_obj(''category'' := JStr [])) ''category'' = JNull \<and>
   last_non_null (initial_state graphState ''category'') (JStr []) = JStr []"
  by (simp add: apply_update_def initial_state_def graphState_def last_truthy_def
      last_non_null_def)

section \<open>Running the two-stage pipeline\<close>

lemma graphState_at:
  "k = ''dish_name'' \<or> k = ''category'' \<or> k = ''recipe'' \<Longrightarrow>
   apply_update graphState st upd k = (if truthy (upd k) then upd k else st k)"
  by (rule apply_update_last_truthy) (simp add: map_of_graphState)

lemma graphState_initial:
  "k = ''dish_name'' \<or> k = ''category'' \<or> k = ''recipe'' \<Longrightarrow>
   initial_state graphState k = JNull"
  by (simp add: initial_state_def map_of_graphState last_truthy_def)

lemma categorizationNode_eq:
  "categorizationNode e st w =
     (case llm_reply e (categorization_prompt (to_string (st ''dish_name''))) of
        None \<Rightarrow> None
      | Some content \<Rightarrow> Some (empty_obj(''category'' := JStr (trim content))),
      w\<lparr>llm_calls := llm_calls w @ [categorization_prompt (to_string (st ''dish_name''))]\<rparr>)"
  by (simp add: categorizationNode_def llm_invoke_def split: option.splits)

lemma recipeNode_eq:
  "recipeNode e st w =
     (case llm_reply e (recipe_prompt (to_string (st ''dish_name'')) (to_string (st ''category''))) of
        None \<Rightarrow> None
      | Some content \<Rightarrow> Some (empty_obj(''recipe'' := JStr content)),
      w\<lparr>llm_calls := llm_calls w @
           [recipe_prompt (to_string (st ''dish_name'')) (to_string (st ''category''))]\<rparr>)"
  by (simp add: recipeNode_def llm_invoke_def split: option.splits)

lemma start_state:
  assumes "truthy dish"
  shows "apply_update graphState (initial_state graphState) (empty_obj(''dish_name'' := dish))
           ''dish_name'' = dish"
    and "apply_update graphState (initial_state graphState) (empty_obj(''dish_name'' := dish))
           ''category'' = JNull"
    and "apply_update graphState (initial_state graphState) (empty_obj(''dish_name'' := dish))
           ''recipe'' = JNull"
  using assms by (simp_all add: graphState_at graphState_initial empty_obj_def)

lemma appGraph_stage1_fails:
  assumes "truthy dish" "llm_reply e (categorization_prompt (to_string dish)) = None"
  shows "appGraph e (empty_obj(''dish_name'' := dish)) w =
           (None, w\<lparr>llm_calls := llm_calls w @ [categorization_prompt (to_string dish)]\<rparr>)"
  using assms
  by (simp add: appGraph_def invoke_def workflow_def categorizationNode_eq start_state)

lemma after_categorize:
  assumes "st ''dish_name'' = dish" "st ''category'' = JNull" "st ''recipe'' = JNull"
  shows "apply_update graphState st (empty_obj(''category'' := JStr (trim raw))) ''dish_name'' = dish"
    and "apply_update graphState st (empty_obj(''category'' := JStr (trim raw))) ''category'' = cat_of raw"
    and "apply_update graphState st (empty_obj(''category'' := JStr (trim raw))) ''recipe'' = JNull"
  using assms by (simp_all add: graphState_at empty_obj_def cat_of_def)

lemma after_generate:
  assumes "st ''dish_name'' = dish" "st ''category'' = c" "st ''recipe'' = JNull"
  shows "apply_update graphState st (empty_obj(''recipe'' := JStr content)) ''dish_name'' = dish"
    and "apply_update graphState st (empty_obj(''recipe'' := JStr content)) ''category'' = c"
    and "apply_update graphState st (empty_obj(''recipe'' := JStr content)) ''recipe'' =
           (if content = [] then JNull else JStr content)"
  using assms by (simp_all add: graphState_at empty_obj_def)

lemma appGraph_stage2_fails:
  assumes "truthy dish" "llm_reply e (categorization_prompt (to_string dish)) = Some raw"
    "llm_reply e (recipe_prompt (to_string dish) (to_string (cat_of raw))) = None"
  shows "appGraph e (empty_obj(''dish_name'' := dish)) w =
           (None, w\<lparr>llm_calls := llm_calls w @ [categorization_prompt (to_string dish),
               recipe_prompt (to_string dish) (to_string (cat_of raw))]\<rparr>)"
  using assms
  by (simp add: appGraph_def invoke_def workflow_def categorizationNode_eq recipeNode_eq
      start_state after_categorize [OF start_state])

lemma appGraph_succeeds:
  assumes "truthy dish" "llm_reply e (categorization_prompt (to_string dish)) = Some raw"
    "llm_reply e (recipe_prompt (to_string dish) (to_string (cat_of raw))) = Some content"
  shows "\<exists>result. appGraph e (empty_obj(''dish_name'' := dish)) w =
           (Some result, w\<lparr>llm_calls := llm_calls w @ [categorization_prompt (to_string dish),
               recipe_prompt (to_string dish) (to_string (cat_of raw))]\<rparr>) \<and>
          result ''dish_name'' = dish \<and> result ''category'' = cat_of raw \<and>
          result ''recipe'' = (if content = [] then JNull else JStr content)"
  using assms
  by (simp add: appGraph_def invoke_def workflow_def categorizationNode_eq recipeNode_eq
      start_state after_categorize [OF start_state]
      after_generate [OF after_categorize [OF start_state]])

section \<open>Running the guarded pipeline\<close>

lemma guarded_at:
  "k = ''dish_name'' \<or> k = ''recipe'' \<Longrightarrow>
   apply_update graphState_guarded st upd k = (if truthy (upd k) then upd k else st k)"
  by (rule apply_update_last_truthy) (simp add: map_of_graphState_guarded)

lemma guarded_initial:
  "k = ''dish_name'' \<or> k = ''recipe'' \<Longrightarrow> initial_state graphState_guarded k = JNull"
  by (simp add: initial_state_def map_of_graphState_guarded last_truthy_def)

lemma recipeNode_guarded_eq:
  "recipeNode_guarded e st w =
     (case llm_reply e (guarded_prompt (to_string (st ''dish_name''))) of
        None \<Rightarrow> None
      | Some content \<Rightarrow> Some (empty_obj(''recipe'' := JStr content)),
      w\<lparr>llm_calls := llm_calls w @ [guarded_prompt (to_string (st ''dish_name''))]\<rparr>)"
  by (simp add: recipeNode_guarded_def llm_invoke_def split: option.splits)

lemma appGraph_guarded_fails:
  assumes "truthy dish" "llm_reply e (guarded_prompt (to_string dish)) = None"
  shows "appGraph_guarded e (empty_obj(''dish_name'' := dish)) w =
           (None, w\<lparr>llm_calls := llm_calls w @ [guarded_prompt (to_string dish)]\<rparr>)"
  using assms
  by (simp add: appGraph_guarded_def invoke_def workflow_guarded_def recipeNode_guarded_eq
      guarded_at guarded_initial empty_obj_def)

lemma appGraph_guarded_succeeds:
  assumes "truthy dish" "llm_reply e (guarded_prompt (to_string dish)) = Some content"
  shows "\<exists>result. appGraph_guarded e (empty_obj(''dish_name'' := dish)) w =
           (Some result, w\<lparr>llm_calls := llm_calls w @ [guarded_prompt (to_string dish)]\<rparr>) \<and>
          result ''dish_name'' = dish \<and> result ''recipe'' = recipe_of content"
  using assms
  by (simp add: appGraph_guarded_def invoke_def workflow_guarded_def recipeNode_guarded_eq
      guarded_at guarded_initial empty_obj_def recipe_of_def)

section \<open>The recipe route\<close>

lemma get_recipe_falsy:
  "\<not> truthy dish \<Longrightarrow> get_recipe e dish w = (Error 400 ''Dish name is required'', w)"
  by (simp add: get_recipe_def)

lemma get_recipe_stage1_fails:
  assumes "truthy dish" "llm_reply e (categorization_prompt (to_string dish)) = None"
  shows "get_recipe e dish w =
           (Error 500 ''Something went wrong. Check server console.'',
            w\<lparr>llm_calls := llm_calls w @ [categorization_prompt (to_string dish)]\<rparr>)"
  using assms by (simp add: get_recipe_def appGraph_stage1_fails)

lemma get_recipe_stage2_fails:
  assumes "truthy dish" "llm_reply e (categorization_prompt (to_string dish)) = Some raw"
    "llm_reply e (recipe_prompt (to_string dish) (to_string (cat_of raw))) = None"
  shows "get_recipe e dish w =
           (Error 500 ''Something went wrong. Check server console.'',
            w\<lparr>llm_calls := llm_calls w @ [categorization_prompt (to_string dish),
               recipe_prompt (to_string dish) (to_string (cat_of raw))]\<rparr>)"
  using assms by (simp add: get_recipe_def appGraph_stage2_fails)

lemma get_recipe_ok:
  assumes "truthy dish" "llm_reply e (categorization_prompt (to_string dish)) = Some raw"
    "llm_reply e (recipe_prompt (to_string dish) (to_string (cat_of raw))) = Some content"
    "db_ok e"
  shows "get_recipe e dish w =
           (CategorizedOk (cat_of raw) (recipe_of content),
            w\<lparr>llm_calls := llm_calls w @ [categorization_prompt (to_string dish),
                   recipe_prompt (to_string dish) (to_string (cat_of raw))],
              requests := requests w @
                [\<lparr>request_id = next_id w, userPhone = JUndefined, dishName = dish,
                  category = cat_of raw, recipe = recipe_of content, createdAt = now e\<rparr>],
              next_id := Suc (next_id w)\<rparr>)"
proof -
  from appGraph_succeeds [OF assms(1-3), of w] obtain result where
    r: "appGraph e (empty_obj(''dish_name'' := dish)) w =
          (Some result, w\<lparr>llm_calls := llm_calls w @ [categorization_prompt (to_string dish),
               recipe_prompt (to_string dish) (to_string (cat_of raw))]\<rparr>)"
      "result ''dish_name'' = dish" "result ''category'' = cat_of raw"
      "result ''recipe'' = (if content = [] then JNull else JStr content)"
    by blast
  show ?thesis using assms(1,4) r by (simp add: get_recipe_def recipe_of_def)
qed

lemma get_recipe_db_down:
  assumes "truthy dish" "llm_reply e (categorization_prompt (to_string dish)) = Some raw"
    "llm_reply e (recipe_prompt (to_string dish) (to_string (cat_of raw))) = Some content"
    "\<not> db_ok e"
  shows "get_recipe e dish w =
           (Error 500 ''Something went wrong. Check server console.'',
            w\<lparr>llm_calls := llm_calls w @ [categorization_prompt (to_string dish),
                   recipe_prompt (to_string dish) (to_string (cat_of raw))]\<rparr>)"
proof -
  from appGraph_succeeds [OF assms(1-3), of w] obtain result where
    r: "appGraph e (empty_obj(''dish_name'' := dish)) w =
          (Some result, w\<lparr>llm_calls := llm_calls w @ [categorization_prompt (to_string dish),
               recipe_prompt (to_string dish) (to_string (cat_of raw))]\<rparr>)"
    by blast
  show ?thesis using assms(1,4) r by (simp add: get_recipe_def)
qed

lemma get_recipe_guarded_rejected:
  "authenticateToken e h = Inl r \<Longrightarrow> get_recipe_guarded e h dish w = (r, w)"
  by (simp add: get_recipe_guarded_def)

lemma get_recipe_guarded_falsy:
  "authenticateToken e h = Inr user \<Longrightarrow> \<not> truthy dish \<Longrightarrow>
   get_recipe_guarded e h dish w = (Error 400 ''Dish name required'', w)"
  by (simp add: get_recipe_guarded_def)

lemma get_recipe_guarded_fails:
  assumes "authenticateToken e h = Inr user" "truthy dish"
    "llm_reply e (guarded_prompt (to_string dish)) = None"
  shows "get_recipe_guarded e h dish w =
           (Error 500 ''Something went wrong.'',
            w\<lparr>llm_calls := llm_calls w @ [guarded_prompt (to_string dish)]\<rparr>)"
  using assms by (simp add: get_recipe_guarded_def appGraph_guarded_fails)

lemma get_recipe_guarded_ok:
  assumes "authenticateToken e h = Inr user" "truthy dish"
    "llm_reply e (guarded_prompt (to_string dish)) = Some content" "db_ok e"
    "claim_phone user \<noteq> []"
  shows "get_recipe_guarded e h dish w =
           (RecipeOk (next_id w) dish (recipe_of content) (now e),
            w\<lparr>llm_calls := llm_calls w @ [guarded_prompt (to_string dish)],
              requests := requests w @
                [\<lparr>request_id = next_id w, userPhone = JStr (claim_phone user), dishName = dish,
                  category = JStr ''Gourmet'', recipe = recipe_of content, createdAt = now e\<rparr>],
              next_id := Suc (next_id w)\<rparr>)"
proof -
  from appGraph_guarded_succeeds [OF assms(2,3), of w] obtain result where
    r: "appGraph_guarded e (empty_obj(''dish_name'' := dish)) w =
          (Some result, w\<lparr>llm_calls := llm_calls w @ [guarded_prompt (to_string dish)]\<rparr>)"
      "result ''recipe'' = recipe_of content"
    by blast
  show ?thesis using assms(1,2,4,5) r
    by (simp add: get_recipe_guarded_def validate_request_def)
qed

lemma get_recipe_guarded_save_fails:
  assumes "authenticateToken e h = Inr user" "truthy dish"
    "llm_reply e (guarded_prompt (to_string dish)) = Some content"
    "\<not> db_ok e \<or> claim_phone user = []"
  shows "get_recipe_guarded e h dish w =
           (Error 500 ''Something went wrong.'',
            w\<lparr>llm_calls := llm_calls w @ [guarded_prompt (to_string dish)]\<rparr>)"
proof -
  from appGraph_guarded_succeeds [OF assms(2,3), of w] obtain result where
    r: "appGraph_guarded e (empty_obj(''dish_name'' := dish)) w =
          (Some result, w\<lparr>llm_calls := llm_calls w @ [guarded_prompt (to_string dish)]\<rparr>)"
    by blast
  show ?thesis using assms(1,2,4) r
    by (auto simp: get_recipe_guarded_def validate_request_def)
qed

section \<open>Properties of the pipeline and the recipe route\<close>

lemma recipe_of_nonempty: "content \<noteq> [] \<Longrightarrow> recipe_of content = JStr content"
  by (simp add: recipe_of_def)

lemma cat_of_nonempty: "trim raw \<noteq> [] \<Longrightarrow> cat_of raw = JStr (trim raw)"
  by (simp add: cat_of_def)

text \<open>
  Claim C2. With a Model Client that answers the categorize prompt for "Paneer Tikka"
  with a text that trims to "Veg", and the generate prompt for that dish and category
  with a non-empty blob, the two-stage run returns category "Veg" and the blob, untouched,
  as recipe; the Model Client is called exactly twice, first with the categorize prompt
  and then with the generate prompt.
\<close>

theorem two_stage_run:
  assumes "llm_reply e (categorization_prompt ''Paneer Tikka'') = Some raw"
    and "trim raw = ''Veg''"
    and "llm_reply e (recipe_prompt ''Paneer Tikka'' ''Veg'') = Some blob"
    and "blob \<noteq> []"
  shows "(\<exists>result.
            appGraph e (empty_obj(''dish_name'' := JStr ''Paneer Tikka'')) w =
              (Some result,
               w\<lparr>llm_calls := llm_calls w @
                    [categorization_prompt ''Paneer Tikka'',
                     recipe_prompt ''Paneer Tikka'' ''Veg'']\<rparr>) \<and>
            result ''category'' = JStr ''Veg'' \<and> result ''recipe'' = JStr blob) \<and>
         (db_ok e \<longrightarrow>
            fst (get_recipe e (JStr ''Paneer Tikka'') w) =
              CategorizedOk (JStr ''Veg'') (JStr blob))"
proof -
  have c: "cat_of raw = JStr ''Veg''" using assms(2) by (simp add: cat_of_def)
  have b: "recipe_of blob = JStr blob" using assms(4) by (rule recipe_of_nonempty)
  have t: "truthy (JStr ''Paneer Tikka'')" by simp
  have r2: "llm_reply e (recipe_prompt (to_string (JStr ''Paneer Tikka'')) (to_string (cat_of raw)))
              = Some blob"
    using assms(3) c by simp
  have r1: "llm_reply e (categorization_prompt (to_string (JStr ''Paneer Tikka''))) = Some raw"
    using assms(1) by simp
  from appGraph_succeeds [OF t r1 r2, of w]
  have 1: "\<exists>result.
            appGraph e (empty_obj(''dish_name'' := JStr ''Paneer Tikka'')) w =
              (Some result,
               w\<lparr>llm_calls := llm_calls w @
                    [categorization_prompt ''Paneer Tikka'',
                     recipe_prompt ''Paneer Tikka'' ''Veg'']\<rparr>) \<and>
            result ''category'' = JStr ''Veg'' \<and> result ''recipe'' = JStr blob"
    using c assms(4) by auto
  have 2: "db_ok e \<longrightarrow>
            fst (get_recipe e (JStr ''Paneer Tikka'') w) =
              CategorizedOk (JStr ''Veg'') (JStr blob)"
    using get_recipe_ok [OF t r1 r2, of w] c b by simp
  from 1 2 show ?thesis by blast
qed

lemma stub_two_stage_categorize:
  "stub_two_stage (categorization_prompt dish) = Some '' Veg\<newline>''"
  by (simp add: stub_two_stage_def categorization_prompt_def)

lemma stub_two_stage_generate:
  "stub_two_stage (recipe_prompt dish c) = Some example_blob"
  by (simp add: stub_two_stage_def recipe_prompt_def)

lemma trim_padded_veg: "trim '' Veg\<newline>'' = ''Veg''"
  by code_simp

lemma trim_one_space: "trim '' '' = []"
  by code_simp

lemma example_blob_nonempty: "example_blob \<noteq> []"
  by (simp add: example_blob_def)

lemma stub_env_simps:
  "llm_reply (stub_env reply) = reply" "db_ok (stub_env reply)" "now (stub_env reply) = 5000"
  "jwt_decode (stub_env reply) = stub_decode" "jwt_encode (stub_env reply) = stub_encode"
  "env_JWT_SECRET (stub_env reply) = JUndefined"
  by (simp_all add: stub_env_def)

theorem two_stage_run_witness:
  "llm_reply (stub_env stub_two_stage) (categorization_prompt ''Paneer Tikka'') = Some '' Veg\<newline>'' \<and>
   trim '' Veg\<newline>'' = ''Veg'' \<and>
   llm_reply (stub_env stub_two_stage) (recipe_prompt ''Paneer Tikka'' ''Veg'') = Some example_blob \<and>
   example_blob \<noteq> [] \<and>
   (\<exists>result.
      appGraph (stub_env stub_two_stage) (empty_obj(''dish_name'' := JStr ''Paneer Tikka''))
          empty_world =
        (Some result,
         empty_world\<lparr>llm_calls := llm_calls empty_world @
            [categorization_prompt ''Paneer Tikka'', recipe_prompt ''Paneer Tikka'' ''Veg'']\<rparr>) \<and>
      result ''category'' = JStr ''Veg'' \<and> result ''recipe'' = JStr example_blob) \<and>
   fst (get_recipe (stub_env stub_two_stage) (JStr ''Paneer Tikka'') empty_world) =
     CategorizedOk (JStr ''Veg'') (JStr example_blob)"
proof -
  have h1: "llm_reply (stub_env stub_two_stage) (categorization_prompt ''Paneer Tikka'')
              = Some '' Veg\<newline>''"
    by (simp add: stub_env_simps stub_two_stage_categorize)
  have h2: "trim '' Veg\<newline>'' = ''Veg''" by (rule trim_padded_veg)
  have h3: "llm_reply (stub_env stub_two_stage) (recipe_prompt ''Paneer Tikka'' ''Veg'')
              = Some example_blob"
    by (simp add: stub_env_simps stub_two_stage_generate)
  have h4: "example_blob \<noteq> []" by (rule example_blob_nonempty)
  have d: "db_ok (stub_env stub_two_stage)" by (simp add: stub_env_simps)
  from two_stage_run [OF h1 h2 h3 h4, of empty_world] h1 h2 h3 h4 d show ?thesis by blast
qed

lemma refusal_message_nonempty: "refusal_message \<noteq> []"
  by (simp add: refusal_message_def)

text \<open>
  Claim C3. In the guarded revision, when the Model Client answers with the refusal
  message, the pipeline returns that message as the recipe, and the handler of a request
  whose verified token carries a phone (as every token that login issues does), with the
  store up, answers 200 with it and stores a record that holds it.
\<close>

theorem guarded_refusal_is_completion:
  assumes "authenticateToken e h = Inr user"
    and "truthy dish"
    and "llm_reply e (guarded_prompt (to_string dish)) = Some refusal_message"
    and "db_ok e"
    and "claim_phone user \<noteq> []"
  shows "(\<exists>result.
            appGraph_guarded e (empty_obj(''dish_name'' := dish)) w =
              (Some result, w\<lparr>llm_calls := llm_calls w @ [guarded_prompt (to_string dish)]\<rparr>) \<and>
            result ''recipe'' = JStr refusal_message) \<and>
         get_recipe_guarded e h dish w =
           (RecipeOk (next_id w) dish (JStr refusal_message) (now e),
            w\<lparr>llm_calls := llm_calls w @ [guarded_prompt (to_string dish)],
              requests := requests w @
                [\<lparr>request_id = next_id w, userPhone = JStr (claim_phone user), dishName = dish,
                  category = JStr ''Gourmet'', recipe = JStr refusal_message,
                  createdAt = now e\<rparr>],
              next_id := Suc (next_id w)\<rparr>)"
proof -
  have r: "recipe_of refusal_message = JStr refusal_message"
    by (rule recipe_of_nonempty) (rule refusal_message_nonempty)
  from appGraph_guarded_succeeds [OF assms(2,3), of w] r
  have "\<exists>result.
            appGraph_guarded e (empty_obj(''dish_name'' := dish)) w =
              (Some result, w\<lparr>llm_calls := llm_calls w @ [guarded_prompt (to_string dish)]\<rparr>) \<and>
            result ''recipe'' = JStr refusal_message"
    by auto
  moreover from get_recipe_guarded_ok [OF assms, of w] r
  have "get_recipe_guarded e h dish w =
           (RecipeOk (next_id w) dish (JStr refusal_message) (now e),
            w\<lparr>llm_calls := llm_calls w @ [guarded_prompt (to_string dish)],
              requests := requests w @
                [\<lparr>request_id = next_id w, userPhone = JStr (claim_phone user), dishName = dish,
                  category = JStr ''Gourmet'', recipe = JStr refusal_message,
                  createdAt = now e\<rparr>],
              next_id := Suc (next_id w)\<rparr>)"
    by simp
  ultimately show ?thesis by blast
qed

lemma split_bearer_good: "header_token (JStr ''Bearer good'') = JStr ''good''"
  by (simp add: header_token_def element_def)

lemma JWT_SECRET_stub: "JWT_SECRET (stub_env reply) = ''CHANGE_THIS_TO_A_SUPER_COMPLEX_KEY_IN_ENV''"
  by (simp add: JWT_SECRET_def stub_env_simps)

lemma stub_auth_good:
  "authenticateToken (stub_env reply) (JStr ''Bearer good'') = Inr example_claims"
  by (simp add: authenticateToken_def split_bearer_good jwt_verify_def JWT_SECRET_stub
      stub_env_simps stub_decode_def)

theorem guarded_refusal_is_completion_witness:
  "authenticateToken (stub_env (stub_always refusal_message)) (JStr ''Bearer good'') =
     Inr example_claims \<and>
   truthy (JStr ''how to hack a server'') \<and>
   llm_reply (stub_env (stub_always refusal_message))
     (guarded_prompt (to_string (JStr ''how to hack a server''))) = Some refusal_message \<and>
   db_ok (stub_env (stub_always refusal_message)) \<and>
   claim_phone example_claims \<noteq> [] \<and>
   fst (get_recipe_guarded (stub_env (stub_always refusal_message)) (JStr ''Bearer good'')
          (JStr ''how to hack a server'') empty_world) =
     RecipeOk 0 (JStr ''how to hack a server'') (JStr refusal_message) 5000 \<and>
   map recipe (requests (snd (get_recipe_guarded (stub_env (stub_always refusal_message))
          (JStr ''Bearer good'') (JStr ''how to hack a server'') empty_world))) =
     [JStr refusal_message]"
proof -
  let ?e = "stub_env (stub_always refusal_message)"
  have h1: "authenticateToken ?e (JStr ''Bearer good'') = Inr example_claims"
    by (rule stub_auth_good)
  have h2: "truthy (JStr ''how to hack a server'')" by simp
  have h3: "llm_reply ?e (guarded_prompt (to_string (JStr ''how to hack a server'')))
              = Some refusal_message"
    by (simp add: stub_env_simps stub_always_def)
  have h4: "db_ok ?e" by (simp add: stub_env_simps)
  have h5: "claim_phone example_claims \<noteq> []" by (simp add: example_claims_def)
  from guarded_refusal_is_completion [OF h1 h2 h3 h4 h5, of empty_world] h1 h2 h3 h4 h5
  show ?thesis by (simp add: empty_world_def stub_env_simps)
qed

lemma get_recipe_cases:
  "get_recipe e dish w = (Error 400 ''Dish name is required'', w) \<and> \<not> truthy dish \<or>
   get_recipe e dish w =
     (Error 500 ''Something went wrong. Check server console.'',
      w\<lparr>llm_calls := llm_calls w @ [categorization_prompt (to_string dish)]\<rparr>) \<and>
     truthy dish \<and> llm_reply e (categorization_prompt (to_string dish)) = None \<or>
   (\<exists>raw. get_recipe e dish w =
     (Error 500 ''Something went wrong. Check server console.'',
      w\<lparr>llm_calls := llm_calls w @ [categorization_prompt (to_string dish),
           recipe_prompt (to_string dish) (to_string (cat_of raw))]\<rparr>) \<and>
     truthy dish \<and> llm_reply e (categorization_prompt (to_string dish)) = Some raw \<and>
     (llm_reply e (recipe_prompt (to_string dish) (to_string (cat_of raw))) = None \<or>
      llm_reply e (recipe_prompt (to_string dish) (to_string (cat_of raw))) \<noteq> None \<and>
        \<not> db_ok e)) \<or>
   (\<exists>raw content. get_recipe e dish w =
     (CategorizedOk (cat_of raw) (recipe_of content),
      w\<lparr>llm_calls := llm_calls w @ [categorization_prompt (to_string dish),
             recipe_prompt (to_string dish) (to_string (cat_of raw))],
        requests := requests w @
          [\<lparr>request_id = next_id w, userPhone = JUndefined, dishName = dish,
            category = cat_of raw, recipe = recipe_of content, createdAt = now e\<rparr>],
        next_id := Suc (next_id w)\<rparr>) \<and>
     truthy dish \<and> llm_reply e (categorization_prompt (to_string dish)) = Some raw \<and>
     llm_reply e (recipe_prompt (to_string dish) (to_string (cat_of raw))) = Some content \<and>
     db_ok e)"
proof (cases "truthy dish")
  case False
  then show ?thesis by (simp add: get_recipe_falsy)
next
  case t: True
  show ?thesis
  proof (cases "llm_reply e (categorization_prompt (to_string dish))")
    case None
    with t show ?thesis by (simp add: get_recipe_stage1_fails)
  next
    case (Some raw)
    note r1 = this
    show ?thesis
    proof (cases "llm_reply e (recipe_prompt (to_string dish) (to_string (cat_of raw)))")
      case None
      with t r1 show ?thesis by (simp add: get_recipe_stage2_fails)
    next
      case (Some content)
      note r2 = this
      show ?thesis
      proof (cases "db_ok e")
        case True
        from get_recipe_ok [OF t r1 r2 True, of w] t r1 r2 True show ?thesis by blast
      next
        case False
        from get_recipe_db_down [OF t r1 r2 False, of w] t r1 r2 False show ?thesis by blast
      qed
    qed
  qed
qed

lemma get_recipe_guarded_cases:
  "(\<exists>r. get_recipe_guarded e h dish w = (r, w) \<and> authenticateToken e h = Inl r) \<or>
   (\<exists>user. authenticateToken e h = Inr user \<and>
     (get_recipe_guarded e h dish w = (Error 400 ''Dish name required'', w) \<and> \<not> truthy dish \<or>
      get_recipe_guarded e h dish w =
        (Error 500 ''Something went wrong.'',
         w\<lparr>llm_calls := llm_calls w @ [guarded_prompt (to_string dish)]\<rparr>) \<and>
        truthy dish \<and>
        (llm_reply e (guarded_prompt (to_string dish)) = None \<or>
         llm_reply e (guarded_prompt (to_string dish)) \<noteq> None \<and>
           (\<not> db_ok e \<or> claim_phone user = [])) \<or>
      (\<exists>content. get_recipe_guarded e h dish w =
         (RecipeOk (next_id w) dish (recipe_of content) (now e),
          w\<lparr>llm_calls := llm_calls w @ [guarded_prompt (to_string dish)],
            requests := requests w @
              [\<lparr>request_id = next_id w, userPhone = JStr (claim_phone user), dishName = dish,
                category = JStr ''Gourmet'', recipe = recipe_of content, createdAt = now e\<rparr>],
            next_id := Suc (next_id w)\<rparr>) \<and>
         truthy dish \<and> llm_reply e (guarded_prompt (to_string dish)) = Some content \<and>
         db_ok e \<and> claim_phone user \<noteq> [])))"
proof (cases "authenticateToken e h")
  case (Inl r)
  then show ?thesis by (simp add: get_recipe_guarded_rejected)
next
  case (Inr user)
  note a = this
  show ?thesis
  proof (cases "truthy dish")
    case False
    with a show ?thesis by (simp add: get_recipe_guarded_falsy)
  next
    case t: True
    show ?thesis
    proof (cases "llm_reply e (guarded_prompt (to_string dish))")
      case None
      with a t show ?thesis by (simp add: get_recipe_guarded_fails)
    next
      case (Some content)
      note r = this
      show ?thesis
      proof (cases "db_ok e \<and> claim_phone user \<noteq> []")
        case True
        then have d: "db_ok e" and p: "claim_phone user \<noteq> []" by simp_all
        from get_recipe_guarded_ok [OF a t r d p, of w] a t r d p show ?thesis by blast
      next
        case False
        then have f: "\<not> db_ok e \<or> claim_phone user = []" by blast
        from get_recipe_guarded_save_fails [OF a t r f, of w] a t r f show ?thesis by blast
      qed
    qed
  qed
qed

lemma get_recipe_writes_only_on_200:
  "status (fst (get_recipe e dish w)) \<noteq> 200 \<Longrightarrow>
   requests (snd (get_recipe e dish w)) = requests w"
  using get_recipe_cases [of e dish w] by auto

lemma get_recipe_guarded_writes_only_on_200:
  "status (fst (get_recipe_guarded e h dish w)) \<noteq> 200 \<Longrightarrow>
   requests (snd (get_recipe_guarded e h dish w)) = requests w"
  using get_recipe_guarded_cases [of e h dish w] by auto

lemma appGraph_outcome:
  assumes "truthy dish"
  shows "(fst (appGraph e (empty_obj(''dish_name'' := dish)) w) = None) =
         (llm_reply e (categorization_prompt (to_string dish)) = None \<or>
          (\<exists>raw. llm_reply e (categorization_prompt (to_string dish)) = Some raw \<and>
             llm_reply e (recipe_prompt (to_string dish) (to_string (cat_of raw))) = None))"
proof (cases "llm_reply e (categorization_prompt (to_string dish))")
  case None
  with assms show ?thesis by (simp add: appGraph_stage1_fails)
next
  case (Some raw)
  note r1 = this
  show ?thesis
  proof (cases "llm_reply e (recipe_prompt (to_string dish) (to_string (cat_of raw)))")
    case None
    with assms r1 show ?thesis by (simp add: appGraph_stage2_fails)
  next
    case (Some content)
    from appGraph_succeeds [OF assms r1 Some, of w] r1 Some show ?thesis by auto
  qed
qed

lemma appGraph_guarded_outcome:
  assumes "truthy dish"
  shows "(fst (appGraph_guarded e (empty_obj(''dish_name'' := dish)) w) = None) =
         (llm_reply e (guarded_prompt (to_string dish)) = None)"
proof (cases "llm_reply e (guarded_prompt (to_string dish))")
  case None
  with assms show ?thesis by (simp add: appGraph_guarded_fails)
next
  case (Some content)
  from appGraph_guarded_succeeds [OF assms Some, of w] Some show ?thesis by auto
qed

text \<open>
  Claim C4. A run whose categorize call throws makes that one call only and the handler
  answers 500 with the store as it was; whenever the pipeline throws, in either revision,
  the answer is 500 and no record is written; and a record is written only when the
  pipeline has returned a state and the answer is 200.
\<close>

theorem no_partial_success:
  "(truthy dish \<longrightarrow> llm_reply e (categorization_prompt (to_string dish)) = None \<longrightarrow>
      get_recipe e dish w =
        (Error 500 ''Something went wrong. Check server console.'',
         w\<lparr>llm_calls := llm_calls w @ [categorization_prompt (to_string dish)]\<rparr>)) \<and>
   (truthy dish \<longrightarrow> fst (appGraph e (empty_obj(''dish_name'' := dish)) w) = None \<longrightarrow>
      status (fst (get_recipe e dish w)) = 500 \<and>
      requests (snd (get_recipe e dish w)) = requests w) \<and>
   (truthy dish \<longrightarrow> authenticateToken e h = Inr user \<longrightarrow>
    fst (appGraph_guarded e (empty_obj(''dish_name'' := dish)) w) = None \<longrightarrow>
      status (fst (get_recipe_guarded e h dish w)) = 500 \<and>
      requests (snd (get_recipe_guarded e h dish w)) = requests w) \<and>
   (requests (snd (get_recipe e dish w)) \<noteq> requests w \<longrightarrow>
      status (fst (get_recipe e dish w)) = 200 \<and>
      fst (appGraph e (empty_obj(''dish_name'' := dish)) w) \<noteq> None) \<and>
   (requests (snd (get_recipe_guarded e h dish w)) \<noteq> requests w \<longrightarrow>
      status (fst (get_recipe_guarded e h dish w)) = 200 \<and>
      fst (appGraph_guarded e (empty_obj(''dish_name'' := dish)) w) \<noteq> None)"
proof (intro conjI impI)
  assume "truthy dish" "llm_reply e (categorization_prompt (to_string dish)) = None"
  then show "get_recipe e dish w =
        (Error 500 ''Something went wrong. Check server console.'',
         w\<lparr>llm_calls := llm_calls w @ [categorization_prompt (to_string dish)]\<rparr>)"
    by (rule get_recipe_stage1_fails)
next
  assume t: "truthy dish" and f: "fst (appGraph e (empty_obj(''dish_name'' := dish)) w) = None"
  from f have "llm_reply e (categorization_prompt (to_string dish)) = None \<or>
          (\<exists>raw. llm_reply e (categorization_prompt (to_string dish)) = Some raw \<and>
             llm_reply e (recipe_prompt (to_string dish) (to_string (cat_of raw))) = None)"
    by (simp add: appGraph_outcome [OF t])
  then have g: "\<exists>w'. get_recipe e dish w =
      (Error 500 ''Something went wrong. Check server console.'', w') \<and> requests w' = requests w"
    using t by (auto simp: get_recipe_stage1_fails get_recipe_stage2_fails)
  from g show "status (fst (get_recipe e dish w)) = 500" by auto
  from g show "requests (snd (get_recipe e dish w)) = requests w" by auto
next
  assume t: "truthy dish" and a: "authenticateToken e h = Inr user"
    and f: "fst (appGraph_guarded e (empty_obj(''dish_name'' := dish)) w) = None"
  from f have "llm_reply e (guarded_prompt (to_string dish)) = None"
    by (simp add: appGraph_guarded_outcome [OF t])
  from get_recipe_guarded_fails [OF a t this, of w]
  show "status (fst (get_recipe_guarded e h dish w)) = 500"
    and "requests (snd (get_recipe_guarded e h dish w)) = requests w" by simp_all
next
  assume c: "requests (snd (get_recipe e dish w)) \<noteq> requests w"
  then show "status (fst (get_recipe e dish w)) = 200"
    using get_recipe_writes_only_on_200 [of e dish w] by blast
  from c get_recipe_cases [of e dish w]
  have "truthy dish \<and> (\<exists>raw content.
          llm_reply e (categorization_prompt (to_string dish)) = Some raw \<and>
          llm_reply e (recipe_prompt (to_string dish) (to_string (cat_of raw))) = Some content)"
    by auto
  then show "fst (appGraph e (empty_obj(''dish_name'' := dish)) w) \<noteq> None"
    by (auto simp: appGraph_outcome)
next
  assume c: "requests (snd (get_recipe_guarded e h dish w)) \<noteq> requests w"
  then show "status (fst (get_recipe_guarded e h dish w)) = 200"
    using get_recipe_guarded_writes_only_on_200 [of e h dish w] by blast
  from c get_recipe_guarded_cases [of e h dish w]
  have "truthy dish \<and> (\<exists>content. llm_reply e (guarded_prompt (to_string dish)) = Some content)"
    by auto
  then show "fst (appGraph_guarded e (empty_obj(''dish_name'' := dish)) w) \<noteq> None"
    by (auto simp: appGraph_guarded_outcome)
qed

theorem no_partial_success_witness:
  "truthy (JStr ''Paneer Tikka'') \<and>
   llm_reply (stub_env stub_down) (categorization_prompt (to_string (JStr ''Paneer Tikka''))) = None \<and>
   authenticateToken (stub_env stub_down) (JStr ''Bearer good'') = Inr example_claims \<and>
   get_recipe (stub_env stub_down) (JStr ''Paneer Tikka'') empty_world =
     (Error 500 ''Something went wrong. Check server console.'',
      empty_world\<lparr>llm_calls := [categorization_prompt ''Paneer Tikka'']\<rparr>) \<and>
   fst (appGraph_guarded (stub_env stub_down) (empty_obj(''dish_name'' := JStr ''Paneer Tikka''))
     empty_world) = None \<and>
   status (fst (get_recipe_guarded (stub_env stub_down) (JStr ''Bearer good'')
     (JStr ''Paneer Tikka'') empty_world)) = 500 \<and>
   requests (snd (get_recipe_guarded (stub_env stub_down) (JStr ''Bearer good'')
     (JStr ''Paneer Tikka'') empty_world)) = [] \<and>
   requests (snd (get_recipe (stub_env stub_two_stage) (JStr ''Paneer Tikka'') empty_world))
     \<noteq> requests empty_world \<and>
   status (fst (get_recipe (stub_env stub_two_stage) (JStr ''Paneer Tikka'') empty_world)) = 200"
proof -
  let ?d = "JStr ''Paneer Tikka''"
  have t: "truthy ?d" by simp
  have n: "llm_reply (stub_env stub_down) (categorization_prompt (to_string ?d)) = None"
    by (simp add: stub_env_simps stub_down_def)
  have a: "authenticateToken (stub_env stub_down) (JStr ''Bearer good'') = Inr example_claims"
    by (rule stub_auth_good)
  have g: "fst (appGraph_guarded (stub_env stub_down) (empty_obj(''dish_name'' := ?d))
             empty_world) = None"
    by (simp add: appGraph_guarded_outcome stub_env_simps stub_down_def)
  have r: "requests (snd (get_recipe (stub_env stub_two_stage) ?d empty_world))
             \<noteq> requests empty_world"
    by (simp add: get_recipe_ok [where raw = "'' Veg\<newline>''" and content = example_blob]
        stub_env_simps stub_two_stage_categorize stub_two_stage_generate empty_world_def)
  note inst1 = no_partial_success [of ?d "stub_env stub_down" empty_world "JStr ''Bearer good''"
      example_claims]
  note inst2 = no_partial_success [of ?d "stub_env stub_two_stage" empty_world]
  from inst1 t n have 1: "get_recipe (stub_env stub_down) ?d empty_world =
     (Error 500 ''Something went wrong. Check server console.'',
      empty_world\<lparr>llm_calls := [categorization_prompt ''Paneer Tikka'']\<rparr>)"
    by (simp add: empty_world_def)
  from inst1 t a g have 2: "status (fst (get_recipe_guarded (stub_env stub_down) (JStr ''Bearer good'')
     ?d empty_world)) = 500 \<and>
   requests (snd (get_recipe_guarded (stub_env stub_down) (JStr ''Bearer good'')
     ?d empty_world)) = []"
    by (simp add: empty_world_def)
  from inst2 r have 3:
    "status (fst (get_recipe (stub_env stub_two_stage) ?d empty_world)) = 200"
    by blast
  from t n a g r 1 2 3 show ?thesis by blast
qed

text \<open>
  Claim C5, as the code has it. A dish that is missing, \<^verbatim>\<open>null\<close> or the empty string is
  answered with 400 by the handler (in the guarded revision once the token has been
  verified), and in every case the server's state is left as it was: no call of the
  Model Client, no record.
\<close>

theorem falsy_dish_rejected:
  assumes "\<not> truthy dish"
  shows "get_recipe e dish w = (Error 400 ''Dish name is required'', w) \<and>
         (\<forall>user. authenticateToken e h = Inr user \<longrightarrow>
            get_recipe_guarded e h dish w = (Error 400 ''Dish name required'', w)) \<and>
         snd (get_recipe_guarded e h dish w) = w"
proof -
  have "snd (get_recipe_guarded e h dish w) = w"
    using assms by (cases "authenticateToken e h") (simp_all add: get_recipe_guarded_def)
  with assms show ?thesis
    by (simp add: get_recipe_falsy get_recipe_guarded_falsy)
qed

theorem falsy_dish_rejected_witness:
  "\<not> truthy (JStr []) \<and>
   get_recipe (stub_env stub_two_stage) (JStr []) empty_world =
     (Error 400 ''Dish name is required'', empty_world) \<and>
   get_recipe_guarded (stub_env stub_two_stage) (JStr ''Bearer good'') (JStr []) empty_world =
     (Error 400 ''Dish name required'', empty_world)"
proof -
  have h: "\<not> truthy (JStr [])" by simp
  from falsy_dish_rejected [OF h, of "stub_env stub_two_stage" empty_world "JStr ''Bearer good''"]
    h stub_auth_good [of stub_two_stage]
  show ?thesis by simp
qed

text \<open>
  Claim C5 as stated fails: a dish made of one space is blank, and yet the request is
  answered with 200, the Model Client is called twice and a record is written.
\<close>

theorem blank_dish_counterexample:
  "blank (JStr '' '') \<and>
   status (fst (get_recipe (stub_env stub_two_stage) (JStr '' '') empty_world)) = 200 \<and>
   llm_calls (snd (get_recipe (stub_env stub_two_stage) (JStr '' '') empty_world)) =
     [categorization_prompt '' '', recipe_prompt '' '' ''Veg''] \<and>
   length (requests (snd (get_recipe (stub_env stub_two_stage) (JStr '' '') empty_world))) = 1"
  by (simp add: get_recipe_ok [where raw = "'' Veg\<newline>''" and content = example_blob]
      stub_env_simps stub_two_stage_categorize stub_two_stage_generate empty_world_def
      trim_one_space cat_of_def trim_padded_veg)

text \<open>
  Claim C9. A dish that is a non-empty string of white space passes the check: the
  answer is never 400 and the Model Client is called with the prompt for that dish; and
  when the model answers and the store is up, a record for that dish is written. In the
  guarded revision the same holds for a request with a verified token, the record being
  written when that token carries a phone (as every token that login issues does).
\<close>

theorem whitespace_only_dish_accepted:
  assumes "whitespace_only s"
  shows "status (fst (get_recipe e (JStr s) w)) \<noteq> 400 \<and>
         (\<exists>calls. llm_calls (snd (get_recipe e (JStr s) w)) =
            llm_calls w @ categorization_prompt s # calls) \<and>
         (\<forall>raw content.
            llm_reply e (categorization_prompt s) = Some raw \<longrightarrow>
            llm_reply e (recipe_prompt s (to_string (cat_of raw))) = Some content \<longrightarrow>
            db_ok e \<longrightarrow>
            requests (snd (get_recipe e (JStr s) w)) = requests w @
              [\<lparr>request_id = next_id w, userPhone = JUndefined, dishName = JStr s,
                category = cat_of raw, recipe = recipe_of content, createdAt = now e\<rparr>]) \<and>
         (\<forall>user. authenticateToken e h = Inr user \<longrightarrow>
            status (fst (get_recipe_guarded e h (JStr s) w)) \<noteq> 400 \<and>
            llm_calls (snd (get_recipe_guarded e h (JStr s) w)) =
              llm_calls w @ [guarded_prompt s] \<and>
            (\<forall>content. llm_reply e (guarded_prompt s) = Some content \<longrightarrow> db_ok e \<longrightarrow>
               claim_phone user \<noteq> [] \<longrightarrow>
               requests (snd (get_recipe_guarded e h (JStr s) w)) = requests w @
                 [\<lparr>request_id = next_id w, userPhone = JStr (claim_phone user),
                   dishName = JStr s, category = JStr ''Gourmet'',
                   recipe = recipe_of content, createdAt = now e\<rparr>]))"
proof -
  from assms have t: "truthy (JStr s)" by (simp add: whitespace_only_def)
  have 1: "status (fst (get_recipe e (JStr s) w)) \<noteq> 400"
    using get_recipe_cases [of e "JStr s" w] t by auto
  have 2: "\<exists>calls. llm_calls (snd (get_recipe e (JStr s) w)) =
            llm_calls w @ categorization_prompt s # calls"
    using get_recipe_cases [of e "JStr s" w] t by auto
  have 3: "\<forall>raw content.
            llm_reply e (categorization_prompt s) = Some raw \<longrightarrow>
            llm_reply e (recipe_prompt s (to_string (cat_of raw))) = Some content \<longrightarrow>
            db_ok e \<longrightarrow>
            requests (snd (get_recipe e (JStr s) w)) = requests w @
              [\<lparr>request_id = next_id w, userPhone = JUndefined, dishName = JStr s,
                category = cat_of raw, recipe = recipe_of content, createdAt = now e\<rparr>]"
    using t by (simp add: get_recipe_ok)
  have 4: "\<forall>user. authenticateToken e h = Inr user \<longrightarrow>
            status (fst (get_recipe_guarded e h (JStr s) w)) \<noteq> 400 \<and>
            llm_calls (snd (get_recipe_guarded e h (JStr s) w)) =
              llm_calls w @ [guarded_prompt s] \<and>
            (\<forall>content. llm_reply e (guarded_prompt s) = Some content \<longrightarrow> db_ok e \<longrightarrow>
               claim_phone user \<noteq> [] \<longrightarrow>
               requests (snd (get_recipe_guarded e h (JStr s) w)) = requests w @
                 [\<lparr>request_id = next_id w, userPhone = JStr (claim_phone user),
                   dishName = JStr s, category = JStr ''Gourmet'',
                   recipe = recipe_of content, createdAt = now e\<rparr>])"
  proof (intro allI impI)
    fix user assume a: "authenticateToken e h = Inr user"
    from get_recipe_guarded_cases [of e h "JStr s" w] a t
    have "status (fst (get_recipe_guarded e h (JStr s) w)) \<noteq> 400 \<and>
            llm_calls (snd (get_recipe_guarded e h (JStr s) w)) =
              llm_calls w @ [guarded_prompt s]"
      by auto
    moreover have "\<forall>content. llm_reply e (guarded_prompt s) = Some content \<longrightarrow> db_ok e \<longrightarrow>
               claim_phone user \<noteq> [] \<longrightarrow>
               requests (snd (get_recipe_guarded e h (JStr s) w)) = requests w @
                 [\<lparr>request_id = next_id w, userPhone = JStr (claim_phone user),
                   dishName = JStr s, category = JStr ''Gourmet'',
                   recipe = recipe_of content, createdAt = now e\<rparr>]"
      using a t by (simp add: get_recipe_guarded_ok)
    ultimately show "status (fst (get_recipe_guarded e h (JStr s) w)) \<noteq> 400 \<and>
            llm_calls (snd (get_recipe_guarded e h (JStr s) w)) =
              llm_calls w @ [guarded_prompt s] \<and>
            (\<forall>content. llm_reply e (guarded_prompt s) = Some content \<longrightarrow> db_ok e \<longrightarrow>
               claim_phone user \<noteq> [] \<longrightarrow>
               requests (snd (get_recipe_guarded e h (JStr s) w)) = requests w @
                 [\<lparr>request_id = next_id w, userPhone = JStr (claim_phone user),
                   dishName = JStr s, category = JStr ''Gourmet'',
                   recipe = recipe_of content, createdAt = now e\<rparr>])"
      by blast
  qed
  from 1 2 3 4 show ?thesis by blast
qed

theorem whitespace_only_dish_accepted_witness:
  "whitespace_only '' '' \<and>
   status (fst (get_recipe (stub_env stub_two_stage) (JStr '' '') empty_world)) \<noteq> 400 \<and>
   requests (snd (get_recipe (stub_env stub_two_stage) (JStr '' '') empty_world)) =
     [\<lparr>request_id = 0, userPhone = JUndefined, dishName = JStr '' '',
       category = JStr ''Veg'', recipe = JStr example_blob, createdAt = 5000\<rparr>] \<and>
   llm_calls (snd (get_recipe_guarded (stub_env stub_two_stage) (JStr ''Bearer good'')
     (JStr '' '') empty_world)) = [guarded_prompt '' ''] \<and>
   requests (snd (get_recipe_guarded (stub_env stub_two_stage) (JStr ''Bearer good'')
     (JStr '' '') empty_world)) =
     [\<lparr>request_id = 0, userPhone = JStr ''9876543210'', dishName = JStr '' '',
       category = JStr ''Gourmet'', recipe = JStr example_blob, createdAt = 5000\<rparr>]"
proof -
  let ?e = "stub_env stub_two_stage"
  have h: "whitespace_only '' ''" by (simp add: whitespace_only_def trim_one_space)
  have c: "cat_of '' Veg\<newline>'' = JStr ''Veg''" by (simp add: cat_of_def trim_padded_veg)
  have r1: "llm_reply ?e (categorization_prompt '' '') = Some '' Veg\<newline>''"
    by (simp add: stub_env_simps stub_two_stage_categorize)
  have r2: "llm_reply ?e (recipe_prompt '' '' (to_string (cat_of '' Veg\<newline>''))) = Some example_blob"
    by (simp add: stub_env_simps stub_two_stage_generate)
  have r3: "llm_reply ?e (guarded_prompt '' '') = Some example_blob"
    by (simp add: stub_env_simps stub_two_stage_def guarded_prompt_def)
  have b: "recipe_of example_blob = JStr example_blob"
    by (rule recipe_of_nonempty) (rule example_blob_nonempty)
  have d: "db_ok ?e" by (simp add: stub_env_simps)
  note inst = whitespace_only_dish_accepted [OF h, of ?e empty_world "JStr ''Bearer good''"]
  from inst have 1: "status (fst (get_recipe ?e (JStr '' '') empty_world)) \<noteq> 400" by blast
  from inst r1 r2 d have "requests (snd (get_recipe ?e (JStr '' '') empty_world)) =
      requests empty_world @
        [\<lparr>request_id = next_id empty_world, userPhone = JUndefined, dishName = JStr '' '',
          category = cat_of '' Veg\<newline>'', recipe = recipe_of example_blob, createdAt = now ?e\<rparr>]"
    by blast
  then have 2: "requests (snd (get_recipe ?e (JStr '' '') empty_world)) =
     [\<lparr>request_id = 0, userPhone = JUndefined, dishName = JStr '' '',
       category = JStr ''Veg'', recipe = JStr example_blob, createdAt = 5000\<rparr>]"
    by (simp add: c b empty_world_def stub_env_simps)
  from inst stub_auth_good [of stub_two_stage]
  have g: "llm_calls (snd (get_recipe_guarded ?e (JStr ''Bearer good'') (JStr '' '') empty_world)) =
              llm_calls empty_world @ [guarded_prompt '' ''] \<and>
            (\<forall>content. llm_reply ?e (guarded_prompt '' '') = Some content \<longrightarrow> db_ok ?e \<longrightarrow>
               claim_phone example_claims \<noteq> [] \<longrightarrow>
               requests (snd (get_recipe_guarded ?e (JStr ''Bearer good'') (JStr '' '') empty_world)) =
                 requests empty_world @
                 [\<lparr>request_id = next_id empty_world, userPhone = JStr (claim_phone example_claims),
                   dishName = JStr '' '', category = JStr ''Gourmet'',
                   recipe = recipe_of content, createdAt = now ?e\<rparr>])"
    by blast
  from g have 3: "llm_calls (snd (get_recipe_guarded ?e (JStr ''Bearer good'') (JStr '' '')
      empty_world)) = [guarded_prompt '' '']"
    by (simp add: empty_world_def)
  have ph: "claim_phone example_claims \<noteq> []" by (simp add: example_claims_def)
  from g r3 d ph have "requests (snd (get_recipe_guarded ?e (JStr ''Bearer good'') (JStr '' '') empty_world)) =
                 requests empty_world @
                 [\<lparr>request_id = next_id empty_world, userPhone = JStr (claim_phone example_claims),
                   dishName = JStr '' '', category = JStr ''Gourmet'',
                   recipe = recipe_of example_blob, createdAt = now ?e\<rparr>]"
    by blast
  then have 4: "requests (snd (get_recipe_guarded ?e (JStr ''Bearer good'') (JStr '' '') empty_world)) =
     [\<lparr>request_id = 0, userPhone = JStr ''9876543210'', dishName = JStr '' '',
       category = JStr ''Gourmet'', recipe = JStr example_blob, createdAt = 5000\<rparr>]"
    by (simp add: b empty_world_def stub_env_simps example_claims_def)
  from h 1 2 3 4 show ?thesis by blast
qed

text \<open>
  The empty update is reachable: a categorize reply of white space is trimmed to the empty
  string, and the run ends with category \<^verbatim>\<open>null\<close>.
\<close>

lemma blank_category_reply_leaves_null:
  "fst (categorizationNode (stub_env (stub_always ''  '')) st w) =
     Some (empty_obj(''category'' := JStr [])) \<and>
   fst (get_recipe (stub_env (stub_always ''  '')) (JStr ''Dal'') empty_world) =
     CategorizedOk JNull (JStr ''  '')"
proof -
  have c: "trim ''  '' = []" by code_simp
  then have n: "cat_of ''  '' = JNull" by (simp add: cat_of_def)
  have 1: "fst (categorizationNode (stub_env (stub_always ''  '')) st w) =
     Some (empty_obj(''category'' := JStr []))"
    by (simp add: categorizationNode_eq stub_env_simps stub_always_def c)
  have 2: "fst (get_recipe (stub_env (stub_always ''  '')) (JStr ''Dal'') empty_world) =
     CategorizedOk JNull (JStr ''  '')"
    by (simp add: get_recipe_ok [where raw = "''  ''" and content = "''  ''"]
        stub_env_simps stub_always_def n recipe_of_def)
  from 1 2 show ?thesis by blast
qed

section \<open>Login\<close>

lemma find_phone_sound: "find (\<lambda>u. phone u = p) us = Some u \<Longrightarrow> phone u = p \<and> u \<in> set us"
  by (induction us) (auto split: if_splits)

lemma find_snoc:
  "find P (xs @ [x]) = (case find P xs of Some y \<Rightarrow> Some y | None \<Rightarrow> if P x then Some x else None)"
  by (induction xs) auto

lemma find_None_filter: "find P xs = None \<Longrightarrow> filter P xs = []"
  by (induction xs) (auto split: if_splits)

lemma find_Some_filter: "find P xs = Some x \<Longrightarrow> filter P xs \<noteq> []"
  by (induction xs) (auto split: if_splits)

lemma isValidPhone_nonempty: "isValidPhone p \<Longrightarrow> p \<noteq> []"
  by (auto simp: isValidPhone_def)

lemma login_existing:
  assumes "(lg = login \<and> ttl = 7200) \<or> (lg = login_r1 \<and> ttl = 86400)"
    and "isValidPhone p" "n \<noteq> []" "db_ok e"
    and "find (\<lambda>u. phone u = p) (users w) = Some u"
  shows "lg e (JStr n) (JStr p) w =
           (LoginOk (jwt_sign e \<lparr>claim_id = user_id u, claim_phone = phone u, claim_name = name u\<rparr>
                       (JWT_SECRET e) ttl) (name u) (phone u), w)"
  using assms isValidPhone_nonempty [of p] by (auto simp: login_def login_r1_def)

lemma login_new:
  assumes "(lg = login \<and> ttl = 7200) \<or> (lg = login_r1 \<and> ttl = 86400)"
    and "isValidPhone p" "n \<noteq> []" "db_ok e"
    and "find (\<lambda>u. phone u = p) (users w) = None"
  shows "lg e (JStr n) (JStr p) w =
           (LoginOk (jwt_sign e \<lparr>claim_id = next_id w, claim_phone = p, claim_name = n\<rparr>
                       (JWT_SECRET e) ttl) n p,
            w\<lparr>users := users w @
                 [\<lparr>user_id = next_id w, name = n, phone = p, user_createdAt = now e\<rparr>],
              next_id := Suc (next_id w)\<rparr>)"
  using assms isValidPhone_nonempty [of p] by (auto simp: login_def login_r1_def Let_def)

text \<open>
  Claim C10. When a user is stored for the phone, login (either revision) signs the token
  over the stored user's id, phone and name, and answers with the stored name and phone,
  whatever name the request carries; the store is left as it was. Only when no user is
  stored for the phone does the request's name enter the new user, the token and the
  answer.
\<close>

theorem login_existing_user_keeps_stored_name:
  assumes "(lg = login \<and> ttl = 7200) \<or> (lg = login_r1 \<and> ttl = 86400)"
    and "isValidPhone p" and "n \<noteq> []" and "db_ok e"
  shows "(\<forall>u. find (\<lambda>u. phone u = p) (users w) = Some u \<longrightarrow>
            lg e (JStr n) (JStr p) w =
              (LoginOk (jwt_sign e
                          \<lparr>claim_id = user_id u, claim_phone = phone u, claim_name = name u\<rparr>
                          (JWT_SECRET e) ttl) (name u) (phone u), w)) \<and>
         (find (\<lambda>u. phone u = p) (users w) = None \<longrightarrow>
            lg e (JStr n) (JStr p) w =
              (LoginOk (jwt_sign e \<lparr>claim_id = next_id w, claim_phone = p, claim_name = n\<rparr>
                          (JWT_SECRET e) ttl) n p,
               w\<lparr>users := users w @
                    [\<lparr>user_id = next_id w, name = n, phone = p, user_createdAt = now e\<rparr>],
                 next_id := Suc (next_id w)\<rparr>))"
  using login_existing [OF assms] login_new [OF assms] by blast

text \<open>
  Claim C6. For a phone of ten digits and two non-empty names, two successive logins
  with that phone (either revision, the store up) are answered with tokens over the same
  user id and the same name; the second login leaves the store as the first left it;
  the first adds one user, who carries the first name, when none was stored for the phone
  and none otherwise; so the number of users with that phone never grows beyond what it
  was, or one.
\<close>

theorem login_twice_same_user:
  assumes "(lg = login \<and> ttl = 7200) \<or> (lg = login_r1 \<and> ttl = 86400)"
    and "isValidPhone p" and "n1 \<noteq> []" and "n2 \<noteq> []" and "db_ok e1" and "db_ok e2"
    and "lg e1 (JStr n1) (JStr p) w = (r1, w1)"
    and "lg e2 (JStr n2) (JStr p) w1 = (r2, w2)"
  shows "\<exists>u. find (\<lambda>u. phone u = p) (users w1) = Some u \<and>
           r1 = LoginOk (jwt_sign e1
                           \<lparr>claim_id = user_id u, claim_phone = p, claim_name = name u\<rparr>
                           (JWT_SECRET e1) ttl) (name u) p \<and>
           r2 = LoginOk (jwt_sign e2
                           \<lparr>claim_id = user_id u, claim_phone = p, claim_name = name u\<rparr>
                           (JWT_SECRET e2) ttl) (name u) p \<and>
           w2 = w1 \<and>
           (find (\<lambda>u. phone u = p) (users w) = None \<longrightarrow>
              users w1 = users w @ [u] \<and> name u = n1) \<and>
           (find (\<lambda>u. phone u = p) (users w) \<noteq> None \<longrightarrow> w1 = w) \<and>
           length (filter (\<lambda>u. phone u = p) (users w2)) =
             max 1 (length (filter (\<lambda>u. phone u = p) (users w)))"
proof (cases "find (\<lambda>u. phone u = p) (users w)")
  case None
  let ?u = "\<lparr>user_id = next_id w, name = n1, phone = p, user_createdAt = now e1\<rparr>"
  from login_new [OF assms(1,2,3,5) None] assms(7)
  have r1: "r1 = LoginOk (jwt_sign e1 \<lparr>claim_id = next_id w, claim_phone = p, claim_name = n1\<rparr>
                       (JWT_SECRET e1) ttl) n1 p"
    and w1: "w1 = w\<lparr>users := users w @ [?u], next_id := Suc (next_id w)\<rparr>"
    by simp_all
  have f1: "find (\<lambda>u. phone u = p) (users w1) = Some ?u"
    using None w1 by (simp add: find_snoc)
  from login_existing [OF assms(1,2,4,6) f1] assms(8)
  have r2: "r2 = LoginOk (jwt_sign e2 \<lparr>claim_id = next_id w, claim_phone = p, claim_name = n1\<rparr>
                       (JWT_SECRET e2) ttl) n1 p" and w2: "w2 = w1"
    by simp_all
  have c: "length (filter (\<lambda>u. phone u = p) (users w2)) =
             max 1 (length (filter (\<lambda>u. phone u = p) (users w)))"
    using w1 w2 find_None_filter [OF None] by simp
  show ?thesis
    by (rule exI [of _ ?u]) (use None f1 r1 r2 w1 w2 c in simp)
next
  case (Some u)
  from find_phone_sound [OF Some] have p: "phone u = p" by simp
  from login_existing [OF assms(1,2,3,5) Some] assms(7) p
  have r1: "r1 = LoginOk (jwt_sign e1 \<lparr>claim_id = user_id u, claim_phone = p, claim_name = name u\<rparr>
                       (JWT_SECRET e1) ttl) (name u) p"
    and w1: "w1 = w"
    by simp_all
  from Some w1 have f1: "find (\<lambda>u. phone u = p) (users w1) = Some u" by simp
  from login_existing [OF assms(1,2,4,6) f1] assms(8) p
  have r2: "r2 = LoginOk (jwt_sign e2 \<lparr>claim_id = user_id u, claim_phone = p, claim_name = name u\<rparr>
                       (JWT_SECRET e2) ttl) (name u) p" and w2: "w2 = w1"
    by simp_all
  have "filter (\<lambda>u. phone u = p) (users w) \<noteq> []" by (rule find_Some_filter [OF Some])
  then have "1 \<le> length (filter (\<lambda>u. phone u = p) (users w))"
    by (cases "filter (\<lambda>u. phone u = p) (users w)") simp_all
  then have c: "length (filter (\<lambda>u. phone u = p) (users w2)) =
             max 1 (length (filter (\<lambda>u. phone u = p) (users w)))"
    using w1 w2 by simp
  show ?thesis
    by (rule exI [of _ u]) (use Some f1 r1 r2 w1 w2 c in simp)
qed

lemma example_phone_valid: "isValidPhone ''9876543210''"
  by (simp add: isValidPhone_def is_digit_def)

theorem login_twice_same_user_witness:
  "isValidPhone ''9876543210'' \<and>
   login (stub_env stub_down) (JStr ''Asha'') (JStr ''9876543210'') empty_world =
     (LoginOk ''Asha/9876543210'' ''Asha'' ''9876543210'',
      empty_world\<lparr>users := [\<lparr>user_id = 0, name = ''Asha'', phone = ''9876543210'',
                                user_createdAt = 5000\<rparr>], next_id := 1\<rparr>) \<and>
   login (stub_env stub_down) (JStr ''Bela'') (JStr ''9876543210'')
       (empty_world\<lparr>users := [\<lparr>user_id = 0, name = ''Asha'', phone = ''9876543210'',
                                user_createdAt = 5000\<rparr>], next_id := 1\<rparr>) =
     (LoginOk ''Asha/9876543210'' ''Asha'' ''9876543210'',
      empty_world\<lparr>users := [\<lparr>user_id = 0, name = ''Asha'', phone = ''9876543210'',
                                user_createdAt = 5000\<rparr>], next_id := 1\<rparr>) \<and>
   length (filter (\<lambda>u. phone u = ''9876543210'')
     (users (empty_world\<lparr>users := [\<lparr>user_id = 0, name = ''Asha'', phone = ''9876543210'',
                                user_createdAt = 5000\<rparr>], next_id := 1\<rparr>))) = 1"
proof -
  let ?e = "stub_env stub_down"
  let ?p = "''9876543210''"
  let ?w1 = "empty_world\<lparr>users := [\<lparr>user_id = 0, name = ''Asha'', phone = ?p,
                                user_createdAt = 5000\<rparr>], next_id := 1\<rparr>"
  have v: "isValidPhone ?p" by (rule example_phone_valid)
  have l: "login = login \<and> (7200::nat) = 7200 \<or> login = login_r1 \<and> (7200::nat) = 86400"
    by simp
  have d: "db_ok ?e" by (simp add: stub_env_simps)
  have a: "''Asha'' \<noteq> []" and b: "''Bela'' \<noteq> []" by simp_all
  have 1: "login ?e (JStr ''Asha'') (JStr ?p) empty_world =
             (LoginOk ''Asha/9876543210'' ''Asha'' ?p, ?w1)"
    by (simp add: login_new [OF l v a d] empty_world_def jwt_sign_def stub_env_simps
        stub_encode_def)
  have 2: "login ?e (JStr ''Bela'') (JStr ?p) ?w1 =
             (LoginOk ''Asha/9876543210'' ''Asha'' ?p, ?w1)"
    by (simp add: login_existing [OF l v b d] empty_world_def jwt_sign_def stub_env_simps
        stub_encode_def)
  from login_twice_same_user [OF l v a b d d 1 2]
  have "length (filter (\<lambda>u. phone u = ?p) (users ?w1)) =
          max 1 (length (filter (\<lambda>u. phone u = ?p) (users empty_world)))"
    by blast
  then have 3: "length (filter (\<lambda>u. phone u = ?p) (users ?w1)) = 1"
    by (simp add: empty_world_def)
  from v 1 2 3 show ?thesis by blast
qed

theorem login_existing_user_keeps_stored_name_witness:
  "isValidPhone ''9876543210'' \<and>
   find (\<lambda>u. phone u = ''9876543210'')
     (users (empty_world\<lparr>users := [\<lparr>user_id = 7, name = ''Asha'', phone = ''9876543210'',
                                     user_createdAt = 1\<rparr>]\<rparr>)) =
     Some \<lparr>user_id = 7, name = ''Asha'', phone = ''9876543210'', user_createdAt = 1\<rparr> \<and>
   fst (login (stub_env stub_down) (JStr ''Bela'') (JStr ''9876543210'')
     (empty_world\<lparr>users := [\<lparr>user_id = 7, name = ''Asha'', phone = ''9876543210'',
                              user_createdAt = 1\<rparr>]\<rparr>)) =
     LoginOk (jwt_sign (stub_env stub_down)
                \<lparr>claim_id = 7, claim_phone = ''9876543210'', claim_name = ''Asha''\<rparr>
                (JWT_SECRET (stub_env stub_down)) 7200) ''Asha'' ''9876543210''"
proof -
  let ?e = "stub_env stub_down"
  let ?p = "''9876543210''"
  let ?u = "\<lparr>user_id = 7, name = ''Asha'', phone = ?p, user_createdAt = 1\<rparr>"
  let ?w = "empty_world\<lparr>users := [?u]\<rparr>"
  have v: "isValidPhone ?p" by (rule example_phone_valid)
  have l: "login = login \<and> (7200::nat) = 7200 \<or> login = login_r1 \<and> (7200::nat) = 86400"
    by simp
  have d: "db_ok ?e" by (simp add: stub_env_simps)
  have b: "''Bela'' \<noteq> []" by simp
  have f: "find (\<lambda>u. phone u = ?p) (users ?w) = Some ?u" by simp
  from login_existing_user_keeps_stored_name [OF l v b d, of ?w] f
  have "login ?e (JStr ''Bela'') (JStr ?p) ?w =
          (LoginOk (jwt_sign ?e
              \<lparr>claim_id = user_id ?u, claim_phone = phone ?u, claim_name = name ?u\<rparr>
              (JWT_SECRET ?e) 7200) (name ?u) (phone ?u), ?w)"
    by blast
  then have "fst (login ?e (JStr ''Bela'') (JStr ?p) ?w) =
     LoginOk (jwt_sign ?e \<lparr>claim_id = 7, claim_phone = ?p, claim_name = ''Asha''\<rparr>
                (JWT_SECRET ?e) 7200) ''Asha'' ?p"
    by simp
  with v f show ?thesis by blast
qed

section \<open>Token verification\<close>

lemma split_on_no_sep: "c \<notin> set s \<Longrightarrow> split_on c s = [s]"
  by (induction s) auto

lemma header_token_bearer:
  "CHR '' '' \<notin> set tok \<Longrightarrow> header_token (JStr (''Bearer '' @ tok)) = JStr tok"
  by (simp add: header_token_def element_def split_on_no_sep)

lemma header_token_missing:
  "header_token JUndefined = JUndefined" "header_token JNull = JNull"
  "header_token (JStr []) = JStr []" "header_token (JStr ''Bearer'') = JUndefined"
  "header_token (JStr ''Bearer '') = JStr []"
  by (simp_all add: header_token_def element_def)

lemma jwt_verify_rejects:
  "jwt_decode e tok = None \<Longrightarrow> jwt_verify e tok secret = None"
  "jwt_decode e tok = Some t \<Longrightarrow> signed_with t \<noteq> secret \<Longrightarrow> jwt_verify e tok secret = None"
  "jwt_decode e tok = Some t \<Longrightarrow> expires t \<le> now e div 1000 \<Longrightarrow>
     jwt_verify e tok secret = None"
  by (simp_all add: jwt_verify_def)

lemma jwt_verify_accepts:
  "jwt_decode e tok = Some t \<Longrightarrow> signed_with t = secret \<Longrightarrow> now e div 1000 < expires t \<Longrightarrow>
     jwt_verify e tok secret = Some (payload t)"
  by (simp add: jwt_verify_def)

lemma history_rejected: "authenticateToken e h = Inl r \<Longrightarrow> history e h w = (r, w)"
  by (simp add: history_def)

lemma history_pure: "snd (history e h w) = w"
  by (cases "authenticateToken e h") (simp_all add: history_def)

text \<open>
  Claim C7. The middleware (both revisions) answers 401 when the header yields no token,
  and 403 when the token does not verify; a token signed with another secret and a token
  whose expiry has been reached do not verify. These are the only two answers of the
  middleware, and it lets a request pass only with a token signed with the server's
  secret and not yet expired. It has no access to the store, and a protected route that
  it rejects returns its answer with the server's state as it was.
\<close>

theorem token_failure_kinds:
  "(\<not> truthy (header_token h) \<longrightarrow>
      authenticateToken e h = Inl (Error 401 ''Access Denied: No Token Provided'') \<and>
      authenticateToken_r1 e h = Inl (Error 401 ''Access Denied'')) \<and>
   (truthy (header_token h) \<longrightarrow>
    jwt_verify e (to_string (header_token h)) (JWT_SECRET e) = None \<longrightarrow>
      authenticateToken e h = Inl (Error 403 ''Access Denied: Invalid Token'') \<and>
      authenticateToken_r1 e h = Inl (Error 403 ''Invalid Token'')) \<and>
   (\<forall>t. jwt_decode e tok = Some t \<longrightarrow>
      signed_with t \<noteq> JWT_SECRET e \<or> expires t \<le> now e div 1000 \<longrightarrow>
      jwt_verify e tok (JWT_SECRET e) = None) \<and>
   (\<forall>r. authenticateToken e h = Inl r \<longrightarrow>
      history e h w = (r, w) \<and> get_recipe_guarded e h dish w = (r, w)) \<and>
   (\<forall>r. authenticateToken e h = Inl r \<or> authenticateToken_r1 e h = Inl r \<longrightarrow>
      status r = 401 \<or> status r = 403) \<and>
   (\<forall>user. authenticateToken e h = Inr user \<or> authenticateToken_r1 e h = Inr user \<longrightarrow>
      (\<exists>t. jwt_decode e (to_string (header_token h)) = Some t \<and> payload t = user \<and>
         signed_with t = JWT_SECRET e \<and> now e div 1000 < expires t)) \<and>
   header_token JUndefined = JUndefined"
proof (intro conjI impI allI)
  assume "\<not> truthy (header_token h)"
  then show "authenticateToken e h = Inl (Error 401 ''Access Denied: No Token Provided'')"
    and "authenticateToken_r1 e h = Inl (Error 401 ''Access Denied'')"
    by (simp_all add: authenticateToken_def authenticateToken_r1_def)
next
  assume "truthy (header_token h)"
    "jwt_verify e (to_string (header_token h)) (JWT_SECRET e) = None"
  then show "authenticateToken e h = Inl (Error 403 ''Access Denied: Invalid Token'')"
    and "authenticateToken_r1 e h = Inl (Error 403 ''Invalid Token'')"
    by (simp_all add: authenticateToken_def authenticateToken_r1_def)
next
  fix t assume "jwt_decode e tok = Some t"
    "signed_with t \<noteq> JWT_SECRET e \<or> expires t \<le> now e div 1000"
  then show "jwt_verify e tok (JWT_SECRET e) = None"
    by (auto simp: jwt_verify_rejects)
next
  fix r assume "authenticateToken e h = Inl r"
  then show "history e h w = (r, w)" and "get_recipe_guarded e h dish w = (r, w)"
    by (simp_all add: history_rejected get_recipe_guarded_rejected)
next
  fix r assume "authenticateToken e h = Inl r \<or> authenticateToken_r1 e h = Inl r"
  then show "status r = 401 \<or> status r = 403"
    by (auto simp: authenticateToken_def authenticateToken_r1_def Let_def
        split: if_splits option.splits)
next
  fix user assume "authenticateToken e h = Inr user \<or> authenticateToken_r1 e h = Inr user"
  then have "jwt_verify e (to_string (header_token h)) (JWT_SECRET e) = Some user"
    by (auto simp: authenticateToken_def authenticateToken_r1_def Let_def
        split: if_splits option.splits)
  then show "\<exists>t. jwt_decode e (to_string (header_token h)) = Some t \<and> payload t = user \<and>
         signed_with t = JWT_SECRET e \<and> now e div 1000 < expires t"
    by (auto simp: jwt_verify_def split: if_splits option.splits)
next
  show "header_token JUndefined = JUndefined" by (simp add: header_token_missing)
qed

theorem token_failure_kinds_witness:
  "\<not> truthy (header_token JUndefined) \<and>
   authenticateToken (stub_env stub_down) JUndefined =
     Inl (Error 401 ''Access Denied: No Token Provided'') \<and>
   truthy (header_token (JStr ''Bearer forged'')) \<and>
   authenticateToken (stub_env stub_down) (JStr ''Bearer forged'') =
     Inl (Error 403 ''Access Denied: Invalid Token'') \<and>
   truthy (header_token (JStr ''Bearer expired'')) \<and>
   authenticateToken (stub_env stub_down) (JStr ''Bearer expired'') =
     Inl (Error 403 ''Access Denied: Invalid Token'') \<and>
   history (stub_env stub_down) (JStr ''Bearer expired'') empty_world =
     (Error 403 ''Access Denied: Invalid Token'', empty_world)"
proof -
  let ?e = "stub_env stub_down"
  have m: "\<not> truthy (header_token JUndefined)" by (simp add: header_token_missing)
  have hf: "header_token (JStr ''Bearer forged'') = JStr ''forged''"
    using header_token_bearer [of "''forged''"] by simp
  have hx: "header_token (JStr ''Bearer expired'') = JStr ''expired''"
    using header_token_bearer [of "''expired''"] by simp
  have df: "jwt_decode ?e ''forged'' =
      Some \<lparr>payload = example_claims, signed_with = ''another secret'', expires = 7200\<rparr>"
    by (simp add: stub_env_simps stub_decode_def)
  have dx: "jwt_decode ?e ''expired'' =
      Some \<lparr>payload = example_claims,
            signed_with = ''CHANGE_THIS_TO_A_SUPER_COMPLEX_KEY_IN_ENV'', expires = 5\<rparr>"
    by (simp add: stub_env_simps stub_decode_def)
  from token_failure_kinds [of JUndefined ?e "''forged''" empty_world JNull] m
  have 1: "authenticateToken ?e JUndefined = Inl (Error 401 ''Access Denied: No Token Provided'')"
    by blast
  from token_failure_kinds [of "JStr ''Bearer forged''" ?e "''forged''" empty_world JNull] df
  have vf: "jwt_verify ?e ''forged'' (JWT_SECRET ?e) = None"
    by (simp add: JWT_SECRET_stub)
  from token_failure_kinds [of "JStr ''Bearer forged''" ?e "''forged''" empty_world JNull] vf hf
  have 2: "authenticateToken ?e (JStr ''Bearer forged'') =
      Inl (Error 403 ''Access Denied: Invalid Token'')"
    by simp
  from token_failure_kinds [of "JStr ''Bearer expired''" ?e "''expired''" empty_world JNull] dx
  have vx: "jwt_verify ?e ''expired'' (JWT_SECRET ?e) = None"
    by (simp add: stub_env_simps)
  note inst = token_failure_kinds [of "JStr ''Bearer expired''" ?e "''expired''" empty_world JNull]
  from inst vx hx
  have 3: "authenticateToken ?e (JStr ''Bearer expired'') =
      Inl (Error 403 ''Access Denied: Invalid Token'')"
    by simp
  from inst 3 have 4: "history ?e (JStr ''Bearer expired'') empty_world =
     (Error 403 ''Access Denied: Invalid Token'', empty_world)"
    by blast
  from m 1 2 3 4 hf hx show ?thesis by simp
qed

section \<open>History\<close>

lemma sort_createdAt_desc_sorted:
  "sorted_wrt (\<lambda>a b. createdAt b \<le> createdAt a) (sort_createdAt_desc rs)"
proof -
  have "sorted (map (\<lambda>r. - int (createdAt r)) (sort_key (\<lambda>r. - int (createdAt r)) rs))"
    by (rule sorted_sort_key)
  then show ?thesis
    by (simp add: sort_createdAt_desc_def sorted_map)
qed

lemma sort_createdAt_desc_set: "set (sort_createdAt_desc rs) = set rs"
  by (simp add: sort_createdAt_desc_def)

lemma sort_createdAt_desc_length: "length (sort_createdAt_desc rs) = length rs"
  by (simp add: sort_createdAt_desc_def)

text \<open>
  Claim C8. For any stored records, the history of a caller with a verified token is the
  caller's records, all of them and only them, newest first; no answer of the route ever
  lists a record of another owner or lists records out of that order. The two-stage
  revision has neither owners nor tokens: its history is the ten newest records, newest
  first.
\<close>

theorem history_owner_scoped_and_sorted:
  "(\<forall>user. authenticateToken e h = Inr user \<longrightarrow> db_ok e \<longrightarrow>
      (\<exists>rs. history e h w = (HistoryOk rs, w) \<and>
         set rs = {r \<in> set (requests w). userPhone r = JStr (claim_phone user)} \<and>
         length rs = length (filter (\<lambda>r. userPhone r = JStr (claim_phone user)) (requests w)) \<and>
         sorted_wrt (\<lambda>a b. createdAt b \<le> createdAt a) rs)) \<and>
   (\<forall>rs. fst (history e h w) = HistoryOk rs \<longrightarrow>
      (\<exists>user. authenticateToken e h = Inr user \<and>
         (\<forall>r \<in> set rs. userPhone r = JStr (claim_phone user))) \<and>
      sorted_wrt (\<lambda>a b. createdAt b \<le> createdAt a) rs) \<and>
   (\<forall>rs. fst (history_recent e w) = HistoryOk rs \<longrightarrow>
      sorted_wrt (\<lambda>a b. createdAt b \<le> createdAt a) rs \<and> length rs \<le> 10 \<and>
      set rs \<subseteq> set (requests w))"
proof (intro conjI allI impI)
  fix user assume a: "authenticateToken e h = Inr user" and d: "db_ok e"
  let ?rs = "sort_createdAt_desc
               (filter (\<lambda>r. userPhone r = JStr (claim_phone user)) (requests w))"
  have "history e h w = (HistoryOk ?rs, w)" using a d by (simp add: history_def)
  moreover have "set ?rs = {r \<in> set (requests w). userPhone r = JStr (claim_phone user)}"
    by (simp add: sort_createdAt_desc_set)
  moreover have "length ?rs =
      length (filter (\<lambda>r. userPhone r = JStr (claim_phone user)) (requests w))"
    by (rule sort_createdAt_desc_length)
  moreover have "sorted_wrt (\<lambda>a b. createdAt b \<le> createdAt a) ?rs"
    by (rule sort_createdAt_desc_sorted)
  ultimately show "\<exists>rs. history e h w = (HistoryOk rs, w) \<and>
         set rs = {r \<in> set (requests w). userPhone r = JStr (claim_phone user)} \<and>
         length rs = length (filter (\<lambda>r. userPhone r = JStr (claim_phone user)) (requests w)) \<and>
         sorted_wrt (\<lambda>a b. createdAt b \<le> createdAt a) rs"
    by blast
next
  fix rs assume r: "fst (history e h w) = HistoryOk rs"
  then obtain user where a: "authenticateToken e h = Inr user"
    and rs: "rs = sort_createdAt_desc
               (filter (\<lambda>r. userPhone r = JStr (claim_phone user)) (requests w))"
    by (cases "authenticateToken e h")
      (auto simp: history_def authenticateToken_def Let_def split: if_splits option.splits)
  from a rs show "\<exists>user. authenticateToken e h = Inr user \<and>
         (\<forall>r \<in> set rs. userPhone r = JStr (claim_phone user))"
    by (auto simp: sort_createdAt_desc_set)
  from rs show "sorted_wrt (\<lambda>a b. createdAt b \<le> createdAt a) rs"
    by (simp add: sort_createdAt_desc_sorted)
next
  fix rs assume "fst (history_recent e w) = HistoryOk rs"
  then have rs: "rs = take 10 (sort_createdAt_desc (requests w))"
    by (auto simp: history_recent_def split: if_splits)
  from rs show "sorted_wrt (\<lambda>a b. createdAt b \<le> createdAt a) rs"
    by (simp add: sorted_wrt_take sort_createdAt_desc_sorted)
  from rs show "length rs \<le> 10" by simp
  from rs show "set rs \<subseteq> set (requests w)"
    using set_take_subset [of 10 "sort_createdAt_desc (requests w)"]
    by (simp add: sort_createdAt_desc_set)
qed

theorem history_owner_scoped_and_sorted_witness:
  "authenticateToken (stub_env stub_down) (JStr ''Bearer good'') = Inr example_claims \<and>
   db_ok (stub_env stub_down) \<and>
   history (stub_env stub_down) (JStr ''Bearer good'') two_owner_world =
     (HistoryOk [example_record 2 ''9876543210'' 30, example_record 0 ''9876543210'' 10],
      two_owner_world) \<and>
   map userPhone [example_record 2 ''9876543210'' 30, example_record 0 ''9876543210'' 10] =
     [JStr (claim_phone example_claims), JStr (claim_phone example_claims)] \<and>
   sorted_wrt (\<lambda>a b. createdAt b \<le> createdAt a)
     [example_record 2 ''9876543210'' 30, example_record 0 ''9876543210'' 10]"
proof -
  let ?e = "stub_env stub_down"
  let ?rs = "[example_record 2 ''9876543210'' 30, example_record 0 ''9876543210'' 10]"
  have a: "authenticateToken ?e (JStr ''Bearer good'') = Inr example_claims"
    by (rule stub_auth_good)
  have d: "db_ok ?e" by (simp add: stub_env_simps)
  have v: "history ?e (JStr ''Bearer good'') two_owner_world = (HistoryOk ?rs, two_owner_world)"
    by (simp add: history_def a d two_owner_world_def example_record_def example_claims_def
        sort_createdAt_desc_def)
  then have f: "fst (history ?e (JStr ''Bearer good'') two_owner_world) = HistoryOk ?rs"
    by simp
  from history_owner_scoped_and_sorted [of ?e "JStr ''Bearer good''" two_owner_world] f
  have "(\<exists>user. authenticateToken ?e (JStr ''Bearer good'') = Inr user \<and>
           (\<forall>r \<in> set ?rs. userPhone r = JStr (claim_phone user))) \<and>
        sorted_wrt (\<lambda>a b. createdAt b \<le> createdAt a) ?rs"
    by blast
  with a have "map userPhone ?rs =
          [JStr (claim_phone example_claims), JStr (claim_phone example_claims)] \<and>
        sorted_wrt (\<lambda>a b. createdAt b \<le> createdAt a) ?rs"
    by auto
  with a d v show ?thesis by blast
qed

end
